theory Spec2Isabelle
  imports
    Complex_Main
    "HOL-Library.AList"
    "HOL-Library.Sublist"
    "HOL-Library.Char_ord"
    "HOL-Library.List_Lexorder"
    "HOL-Library.Log_Nat"
    "HOL-Library.Word"
begin

unbundle bit_operations_syntax

section \<open>Data model (app/models.py)\<close>

text \<open>
  Python \<^verbatim>\<open>str\<close> values are modelled as \<^typ>\<open>string\<close>: the list of the characters of
  the text, so that \<^const>\<open>length\<close> is Python's \<^verbatim>\<open>len\<close> and \<^const>\<open>take\<close> is the slice
  \<^verbatim>\<open>v[:n]\<close>. The alphabet is the 256 characters of \<^typ>\<open>char\<close>, read as the code points
  0 to 255. Python's unbounded \<^verbatim>\<open>int\<close> is \<^typ>\<open>int\<close>.
\<close>

record PRFile =
  filename :: string
  status :: string
  additions :: int
  deletions :: int
  changes :: int
  patch :: "string option"

record PRCommit =
  sha :: string
  message :: string
  author :: string

text \<open>
  A constructed \<^verbatim>\<open>PRAnalyzeRequest\<close>. The fields declared \<^verbatim>\<open>Optional\<close> without a
  normalising validator may hold \<^verbatim>\<open>None\<close>; \<^verbatim>\<open>description\<close> may not, because
  \<^verbatim>\<open>validate_description\<close> returns \<^verbatim>\<open>v or ""\<close>.
\<close>

record PRAnalyzeRequest =
  title :: string
  description :: string
  files :: "PRFile list"
  commits :: "PRCommit list option"
  base_branch :: "string option"
  head_branch :: "string option"
  pr_url :: "string option"

record PRContext =
  summary :: string
  purpose :: string
  testing_focus :: "string list"
  potential_risks :: "string list"
  affected_areas :: "string list"
  review_priority :: string
  estimated_review_time :: string
  key_changes :: "string list"

section \<open>Formatting integers (f-strings, json.dumps)\<close>

definition digit_char :: "nat \<Rightarrow> char" where
  "digit_char d = char_of (48 + d)"

function str_nat :: "nat \<Rightarrow> string" where
  "str_nat n = (if n < 10 then [digit_char n] else str_nat (n div 10) @ [digit_char (n mod 10)])"
  by pat_completeness auto
termination
  by (relation "measure id") auto

declare str_nat.simps [simp del]

definition str_int :: "int \<Rightarrow> string" where
  "str_int i = (if i < 0 then CHR ''-'' # str_nat (nat (- i)) else str_nat (nat i))"

section \<open>Fallback synthesis (GroqService._create_fallback_context)\<close>

text \<open>\<^verbatim>\<open>sum(f.additions + f.deletions for f in pr_data.files)\<close>\<close>

definition total_changes :: "PRAnalyzeRequest \<Rightarrow> int" where
  "total_changes pr_data = sum_list (map (\<lambda>f. additions f + deletions f) (files pr_data))"

text \<open>The \<^verbatim>\<open>if/elif/else\<close> chain assigning \<^verbatim>\<open>(review_time, priority)\<close>.\<close>

definition review_band :: "int \<Rightarrow> string \<times> string" where
  "review_band tc =
     (if tc < 50 then (''5-10 minutes'', ''low'')
      else if tc < 200 then (''15-25 minutes'', ''medium'')
      else if tc < 500 then (''30-45 minutes'', ''high'')
      else (''1+ hours'', ''critical''))"

text \<open>\<^verbatim>\<open>f.filename.split('/')[0]\<close>: the text before the first slash.\<close>

definition first_segment :: "string \<Rightarrow> string" where
  "first_segment s = takeWhile (\<lambda>c. c \<noteq> CHR ''/'') s"

definition create_fallback_context :: "PRAnalyzeRequest \<Rightarrow> string \<Rightarrow> PRContext" where
  "create_fallback_context pr_data raw_response =
     (let tc = total_changes pr_data;
          (review_time, priority) = review_band tc
      in \<lparr> summary = ''This PR modifies '' @ str_int (int (length (files pr_data)))
                       @ '' files with '' @ str_int tc @ '' total changes.'',
           purpose = (if description pr_data \<noteq> [] then take 200 (description pr_data)
                      else ''No description provided''),
           testing_focus = [''Test the modified functionality'',
                            ''Check for breaking changes'',
                            ''Verify edge cases''],
           potential_risks = [''Changes may affect existing functionality'',
                              ''Review for potential bugs''],
           affected_areas = map (\<lambda>f. first_segment (filename f)) (take 5 (files pr_data)),
           review_priority = priority,
           estimated_review_time = review_time,
           key_changes = map (\<lambda>f. filename f @ '' ('' @ status f @ '')'') (take 5 (files pr_data)) \<rparr>)"

section \<open>JSON values and json.dumps\<close>

text \<open>
  The values \<^verbatim>\<open>json.loads\<close> returns and \<^verbatim>\<open>json.dumps\<close> accepts, without floating
  point numbers. A \<^verbatim>\<open>dict\<close> is the list of its items in insertion order.
\<close>

datatype json =
    JNull
  | JBool bool
  | JInt int
  | JString string
  | JArray "json list"
  | JObject "(string \<times> json) list"

definition hex_char :: "nat \<Rightarrow> char" where
  "hex_char n = (if n < 10 then char_of (48 + n) else char_of (87 + n))"

text \<open>
  \<^verbatim>\<open>py_encode_basestring_ascii\<close> (\<^verbatim>\<open>ensure_ascii=True\<close>, the default): the characters
  from space to tilde stand for themselves, except the quote and the backslash; the others
  are escaped, by a short form or as \<^verbatim>\<open>\u00xx\<close>.
\<close>

definition escape_char :: "char \<Rightarrow> string" where
  "escape_char c =
     (if c = CHR 0x22 then [CHR 0x5C, CHR 0x22]
      else if c = CHR 0x5C then [CHR 0x5C, CHR 0x5C]
      else if c = CHR 0x0A then [CHR 0x5C, CHR ''n'']
      else if c = CHR 0x0D then [CHR 0x5C, CHR ''r'']
      else if c = CHR 0x09 then [CHR 0x5C, CHR ''t'']
      else if c = CHR 0x08 then [CHR 0x5C, CHR ''b'']
      else if c = CHR 0x0C then [CHR 0x5C, CHR ''f'']
      else if 32 \<le> (of_char c :: nat) \<and> (of_char c :: nat) \<le> 126 then [c]
      else [CHR 0x5C, CHR ''u'', CHR ''0'', CHR ''0'',
            hex_char ((of_char c :: nat) div 16), hex_char ((of_char c :: nat) mod 16)])"

definition json_quote :: "string \<Rightarrow> string" where
  "json_quote s = CHR 0x22 # concat (map escape_char s) @ [CHR 0x22]"

text \<open>\<^verbatim>\<open>sep.join(xs)\<close>\<close>

fun join :: "string \<Rightarrow> string list \<Rightarrow> string" where
  "join sep [] = []"
| "join sep [x] = x"
| "join sep (x # y # ys) = x @ sep @ join sep (y # ys)"

text \<open>
  \<^verbatim>\<open>json.dumps(obj, sort_keys=True)\<close> with the default separators: the items of every
  \<^verbatim>\<open>dict\<close> are written in the order of their keys.
\<close>

fun json_dumps :: "json \<Rightarrow> string" where
  "json_dumps JNull = ''null''"
| "json_dumps (JBool b) = (if b then ''true'' else ''false'')"
| "json_dumps (JInt i) = str_int i"
| "json_dumps (JString s) = json_quote s"
| "json_dumps (JArray xs) = ''['' @ join '', '' (map json_dumps xs) @ '']''"
| "json_dumps (JObject kvs) =
     ''{'' @ join '', '' (map (\<lambda>kv. json_quote (fst kv) @ '': '' @ json_dumps (snd kv))
                             (sort_key fst kvs)) @ ''}''"

section \<open>Fingerprint (CacheService._generate_cache_key)\<close>

type_synonym byte = "8 word"

text \<open>
  \<^verbatim>\<open>str.encode()\<close>: UTF-8. A code point below 128 is one byte, one from 128 to 255 is
  two bytes.
\<close>

definition utf8_char :: "char \<Rightarrow> byte list" where
  "utf8_char c =
     (let n = (of_char c :: nat)
      in if n < 128 then [of_nat n]
         else [of_nat (192 + n div 64), of_nat (128 + n mod 64)])"

definition encode :: "string \<Rightarrow> byte list" where
  "encode s = concat (map utf8_char s)"

text \<open>\<^verbatim>\<open>hexdigest()\<close>: two lower-case hexadecimal digits for each byte of the digest.\<close>

definition hexdigest :: "byte list \<Rightarrow> string" where
  "hexdigest bs = concat (map (\<lambda>b. [hex_char (unat b div 16), hex_char (unat b mod 16)]) bs)"

text \<open>The \<^verbatim>\<open>cache_input\<close> dict, its items in the order the source writes them.\<close>

definition cache_input :: "PRAnalyzeRequest \<Rightarrow> json" where
  "cache_input pr_data = JObject
     [(''title'', JString (title pr_data)),
      (''files'', JInt (int (length (files pr_data)))),
      (''total_additions'', JInt (sum_list (map additions (files pr_data)))),
      (''total_deletions'', JInt (sum_list (map deletions (files pr_data)))),
      (''sample_files'', JArray (map (\<lambda>f. JString (filename f)) (take 3 (files pr_data))))]"

text \<open>
  \<^verbatim>\<open>hashlib.sha256\<close> is a library function: the digest function is the parameter
  \<open>sha256\<close>, from the bytes of the message to the bytes of the digest.
\<close>

definition generate_cache_key :: "(byte list \<Rightarrow> byte list) \<Rightarrow> PRAnalyzeRequest \<Rightarrow> string" where
  "generate_cache_key sha256 pr_data =
     (let cache_str = json_dumps (cache_input pr_data)
      in take 16 (hexdigest (sha256 (encode cache_str))))"

text \<open>
  The fingerprint as the specification words it: the canonical record of the five values,
  written as JSON with the field names in lexicographic order, hashed, and the first 16
  hexadecimal digits kept. The specification names the field of the file count
  \<^verbatim>\<open>file_count\<close>; the source writes the key \<^verbatim>\<open>files\<close>. The key is the parameter
  \<open>count_key\<close> of the text; both names sort before \<^verbatim>\<open>sample_files\<close>.
\<close>

record canonical_record =
  cr_title :: string
  cr_file_count :: int
  cr_total_additions :: int
  cr_total_deletions :: int
  cr_sample_files :: "string list"

definition canonical_of :: "PRAnalyzeRequest \<Rightarrow> canonical_record" where
  "canonical_of pr_data =
     \<lparr> cr_title = title pr_data,
       cr_file_count = int (length (files pr_data)),
       cr_total_additions = sum_list (map additions (files pr_data)),
       cr_total_deletions = sum_list (map deletions (files pr_data)),
       cr_sample_files = map filename (take 3 (files pr_data)) \<rparr>"

definition canonical_json :: "string \<Rightarrow> canonical_record \<Rightarrow> string" where
  "canonical_json count_key r =
     ''{'' @ json_quote count_key @ '': '' @ str_int (cr_file_count r) @ '', ''
       @ json_quote ''sample_files'' @ '': ['' @ join '', '' (map json_quote (cr_sample_files r)) @ ''], ''
       @ json_quote ''title'' @ '': '' @ json_quote (cr_title r) @ '', ''
       @ json_quote ''total_additions'' @ '': '' @ str_int (cr_total_additions r) @ '', ''
       @ json_quote ''total_deletions'' @ '': '' @ str_int (cr_total_deletions r) @ ''}''"

text \<open>The fingerprint of the specification, with the field name \<^verbatim>\<open>file_count\<close>.\<close>

definition spec_fingerprint :: "(byte list \<Rightarrow> byte list) \<Rightarrow> canonical_record \<Rightarrow> string" where
  "spec_fingerprint sha256 r =
     take 16 (hexdigest (sha256 (encode (canonical_json ''file_count'' r))))"

text \<open>The same with the key \<^verbatim>\<open>files\<close>.\<close>

definition files_fingerprint :: "(byte list \<Rightarrow> byte list) \<Rightarrow> canonical_record \<Rightarrow> string" where
  "files_fingerprint sha256 r =
     take 16 (hexdigest (sha256 (encode (canonical_json ''files'' r))))"

section \<open>SHA-256 (hashlib.sha256)\<close>

text \<open>
  The digest of the standard (FIPS 180-4), for the theorems that need the value of a
  fingerprint. A 32-bit word is an \<^typ>\<open>int\<close> from 0 to \<open>2 ^ 32 - 1\<close>; sums are reduced by
  \<open>m32\<close>.
\<close>

definition m32 :: "int \<Rightarrow> int" where
  "m32 x = x mod 4294967296"

definition rotr :: "nat \<Rightarrow> int \<Rightarrow> int" where
  "rotr n x = x div 2 ^ n + (x mod 2 ^ n) * 2 ^ (32 - n)"

definition Ch :: "int \<Rightarrow> int \<Rightarrow> int \<Rightarrow> int" where
  "Ch x y z = (x AND y) XOR ((4294967295 - x) AND z)"

definition Maj :: "int \<Rightarrow> int \<Rightarrow> int \<Rightarrow> int" where
  "Maj x y z = ((x AND y) XOR (x AND z)) XOR (y AND z)"

definition Sigma0 :: "int \<Rightarrow> int" where
  "Sigma0 x = (rotr 2 x XOR rotr 13 x) XOR rotr 22 x"

definition Sigma1 :: "int \<Rightarrow> int" where
  "Sigma1 x = (rotr 6 x XOR rotr 11 x) XOR rotr 25 x"

definition sigma0 :: "int \<Rightarrow> int" where
  "sigma0 x = (rotr 7 x XOR rotr 18 x) XOR (x div 2 ^ 3)"

definition sigma1 :: "int \<Rightarrow> int" where
  "sigma1 x = (rotr 17 x XOR rotr 19 x) XOR (x div 2 ^ 10)"

text \<open>The round constants, four to a row.\<close>

definition K256 :: "int list" where
  "K256 = concat
    [[0x428a2f98, 0x71374491, 0xb5c0fbcf, 0xe9b5dba5],
     [0x3956c25b, 0x59f111f1, 0x923f82a4, 0xab1c5ed5],
     [0xd807aa98, 0x12835b01, 0x243185be, 0x550c7dc3],
     [0x72be5d74, 0x80deb1fe, 0x9bdc06a7, 0xc19bf174],
     [0xe49b69c1, 0xefbe4786, 0x0fc19dc6, 0x240ca1cc],
     [0x2de92c6f, 0x4a7484aa, 0x5cb0a9dc, 0x76f988da],
     [0x983e5152, 0xa831c66d, 0xb00327c8, 0xbf597fc7],
     [0xc6e00bf3, 0xd5a79147, 0x06ca6351, 0x14292967],
     [0x27b70a85, 0x2e1b2138, 0x4d2c6dfc, 0x53380d13],
     [0x650a7354, 0x766a0abb, 0x81c2c92e, 0x92722c85],
     [0xa2bfe8a1, 0xa81a664b, 0xc24b8b70, 0xc76c51a3],
     [0xd192e819, 0xd6990624, 0xf40e3585, 0x106aa070],
     [0x19a4c116, 0x1e376c08, 0x2748774c, 0x34b0bcb5],
     [0x391c0cb3, 0x4ed8aa4a, 0x5b9cca4f, 0x682e6ff3],
     [0x748f82ee, 0x78a5636f, 0x84c87814, 0x8cc70208],
     [0x90befffa, 0xa4506ceb, 0xbef9a3f7, 0xc67178f2]]"

definition H0 :: "int list" where
  "H0 = [0x6a09e667, 0xbb67ae85, 0x3c6ef372, 0xa54ff53a,
         0x510e527f, 0x9b05688c, 0x1f83d9ab, 0x5be0cd19]"

text \<open>The message schedule; the list holds the words so far, the newest first.\<close>

fun schedule :: "nat \<Rightarrow> int list \<Rightarrow> int list" where
  "schedule 0 ws = ws"
| "schedule (Suc n) ws =
     schedule n (m32 (sigma1 (ws ! 1) + ws ! 6 + sigma0 (ws ! 14) + ws ! 15) # ws)"

definition round_step :: "int list \<Rightarrow> int \<times> int \<Rightarrow> int list" where
  "round_step st kw =
     (let a = st ! 0; b = st ! 1; c = st ! 2; d = st ! 3;
          e = st ! 4; f = st ! 5; g = st ! 6; h = st ! 7;
          t1 = h + Sigma1 e + Ch e f g + fst kw + snd kw;
          t2 = Sigma0 a + Maj a b c
      in [m32 (t1 + t2), a, b, c, m32 (d + t1), e, f, g])"

definition rounds :: "int list \<Rightarrow> int list \<Rightarrow> int list \<Rightarrow> int list" where
  "rounds ks ws st = foldl round_step st (zip ks ws)"

fun be_words :: "nat \<Rightarrow> int list \<Rightarrow> int list" where
  "be_words 0 bs = []"
| "be_words (Suc n) bs =
     (bs ! 0 * 16777216 + bs ! 1 * 65536 + bs ! 2 * 256 + bs ! 3) # be_words n (drop 4 bs)"

definition compress :: "int list \<Rightarrow> int list \<Rightarrow> int list" where
  "compress st block =
     (let ws = rev (schedule 48 (rev (be_words 16 block)))
      in map m32 (map2 (+) st (rounds K256 ws st)))"

fun blocks :: "nat \<Rightarrow> int list \<Rightarrow> int list \<Rightarrow> int list" where
  "blocks 0 st bs = st"
| "blocks (Suc n) st bs = blocks n (compress st (take 64 bs)) (drop 64 bs)"

definition bytes_of_w32 :: "int \<Rightarrow> int list" where
  "bytes_of_w32 w = [w div 16777216, w div 65536 mod 256, w div 256 mod 256, w mod 256]"

definition bytes_of_w64 :: "int \<Rightarrow> int list" where
  "bytes_of_w64 w = map (\<lambda>i. w div 256 ^ i mod 256) [7, 6, 5, 4, 3, 2, 1, 0]"

definition pad :: "int list \<Rightarrow> int list" where
  "pad msg =
     (let l = length msg
      in msg @ [128] @ replicate ((119 - l mod 64) mod 64) 0 @ bytes_of_w64 (int (8 * l)))"

definition sha256_ints :: "int list \<Rightarrow> int list" where
  "sha256_ints msg =
     (let p = pad msg
      in concat (map bytes_of_w32 (blocks (length p div 64) H0 p)))"

definition hashlib_sha256 :: "byte list \<Rightarrow> byte list" where
  "hashlib_sha256 msg = map word_of_int (sha256_ints (map uint msg))"

section \<open>Double-precision subtraction (the ages of the cache)\<close>

text \<open>
  \<^verbatim>\<open>time.time()\<close> returns a double, and \<^verbatim>\<open>now - entry["timestamp"]\<close> is the IEEE 754
  subtraction of two doubles: the exact difference, rounded to the nearest number with a
  significand of 53 bits, ties to the even significand. A clock reading is the pair of an
  integer significand and a binary exponent, with the value \<open>mant * 2 ^ expo\<close>. The
  range of the exponent is not bounded: no difference of two clock readings overflows,
  and a difference in the subnormal range is exact.
\<close>

record double =
  mant :: int
  expo :: int

definition dval :: "double \<Rightarrow> real" where
  "dval d = real_of_int (mant d) * 2 powi expo d"

definition exact_sub :: "double \<Rightarrow> double \<Rightarrow> double" where
  "exact_sub a b =
     (let e = min (expo a) (expo b)
      in \<lparr> mant = mant a * 2 ^ nat (expo a - e) - mant b * 2 ^ nat (expo b - e), expo = e \<rparr>)"

definition round53 :: "double \<Rightarrow> double" where
  "round53 d =
     (let a = \<bar>mant d\<bar>; n = bitlen a
      in if n \<le> 53 then d
         else (let k = nat (n - 53); q = a div 2 ^ k; r = a mod 2 ^ k;
                   q' = (if 2 * r > 2 ^ k \<or> (2 * r = 2 ^ k \<and> odd q) then q + 1 else q)
               in \<lparr> mant = sgn (mant d) * q', expo = expo d + int k \<rparr>))"

definition float_sub :: "double \<Rightarrow> double \<Rightarrow> double" where
  "float_sub a b = round53 (exact_sub a b)"

section \<open>Result cache (CacheService)\<close>

text \<open>
  The readings of \<^verbatim>\<open>time.time()\<close> are doubles that the caller passes in. An age is the
  rounded difference \<^const>\<open>float_sub\<close>; its comparison with the integer TTL is exact, as
  Python compares a float with an int. The \<^verbatim>\<open>_cache\<close> dict is the list of its items in
  insertion order; \<^const>\<open>AList.update\<close> is the assignment \<^verbatim>\<open>d[k] = v\<close> (in place for a
  key already there, at the end for a new one) and \<^const>\<open>AList.delete\<close> is \<^verbatim>\<open>del d[k]\<close>.
\<close>

record cache_entry =
  data :: PRContext
  timestamp :: double
  pr_title :: string

record CacheService =
  cache :: "(string \<times> cache_entry) list"
  ttl :: int

definition CacheService_init :: "int \<Rightarrow> CacheService" where
  "CacheService_init ttl_seconds = \<lparr> cache = [], ttl = ttl_seconds \<rparr>"

text \<open>A dict has one item for each key.\<close>

definition dict_ok :: "CacheService \<Rightarrow> bool" where
  "dict_ok self = distinct (map fst (cache self))"

definition cache_get ::
  "(byte list \<Rightarrow> byte list) \<Rightarrow> CacheService \<Rightarrow> double \<Rightarrow> PRAnalyzeRequest
    \<Rightarrow> PRContext option \<times> CacheService" where
  "cache_get sha256 self now pr_data =
     (let cache_key = generate_cache_key sha256 pr_data
      in case map_of (cache self) cache_key of
           None \<Rightarrow> (None, self)
         | Some entry \<Rightarrow>
             (let age = float_sub now (timestamp entry)
              in if dval age > real_of_int (ttl self)
                 then (None, self\<lparr>cache := AList.delete cache_key (cache self)\<rparr>)
                 else (Some (data entry), self)))"

text \<open>The list \<^verbatim>\<open>expired_keys\<close> of \<^verbatim>\<open>_cleanup_expired\<close>, and the loop that deletes them.\<close>

definition expired_keys :: "CacheService \<Rightarrow> double \<Rightarrow> string list" where
  "expired_keys self now =
     map fst (filter (\<lambda>(key, entry). dval (float_sub now (timestamp entry)) > real_of_int (ttl self))
                     (cache self))"

definition cleanup_expired :: "CacheService \<Rightarrow> double \<Rightarrow> CacheService" where
  "cleanup_expired self now = self\<lparr>cache := fold AList.delete (expired_keys self now) (cache self)\<rparr>"

text \<open>
  \<^verbatim>\<open>set\<close> reads the clock twice: \<open>t_store\<close> is the timestamp written into the entry,
  \<open>t_sweep\<close> the \<^verbatim>\<open>now\<close> of \<^verbatim>\<open>_cleanup_expired\<close>.
\<close>

definition cache_set ::
  "(byte list \<Rightarrow> byte list) \<Rightarrow> CacheService \<Rightarrow> double \<Rightarrow> double \<Rightarrow> PRAnalyzeRequest \<Rightarrow> PRContext
    \<Rightarrow> CacheService" where
  "cache_set sha256 self t_store t_sweep pr_data context =
     (let cache_key = generate_cache_key sha256 pr_data;
          self1 = self\<lparr>cache := AList.update cache_key
                     \<lparr> data = context, timestamp = t_store, pr_title = title pr_data \<rparr>
                     (cache self)\<rparr>
      in cleanup_expired self1 t_sweep)"

definition cache_clear :: "CacheService \<Rightarrow> CacheService" where
  "cache_clear self = self\<lparr>cache := []\<rparr>"


record stats_entry =
  key :: string
  age_seconds :: int
  stat_pr_title :: string

record stats_result =
  total_entries :: nat
  ttl_seconds :: int
  entries :: "stats_entry list"


section \<open>Interpreting the reply (GroqService.analyze_pr, the inner try)\<close>

text \<open>The exceptions that \<^verbatim>\<open>analyze_pr\<close> catches, and the \<^verbatim>\<open>ValueError\<close>s it raises.\<close>

datatype exn =
    JSONDecodeError
  | ValidationError "string list"
  | TypeError
  | GroqError string
  | OtherException string

datatype error =
    RateLimitExceeded
  | AIAnalysisFailedAfter int exn
  | AnalysisFailedAfter int exn
  | AnalysisFailed "exn option"

text \<open>\<^verbatim>\<open>str.strip()\<close>: the white space among the code points 0 to 255.\<close>

definition is_space :: "char \<Rightarrow> bool" where
  "is_space c =
     (let n = (of_char c :: nat)
      in (9 \<le> n \<and> n \<le> 13) \<or> (28 \<le> n \<and> n \<le> 32) \<or> n = 133 \<or> n = 160)"

definition strip :: "string \<Rightarrow> string" where
  "strip s = rev (dropWhile is_space (rev (dropWhile is_space s)))"

text \<open>The removal of the markdown code fence, on the stripped content.\<close>

definition strip_fences :: "string \<Rightarrow> string" where
  "strip_fences content0 =
     (let content1 = (if prefix ''```json'' content0 then drop 7 content0 else content0);
          content2 = (if prefix ''```'' content1 then drop 3 content1 else content1);
          content3 = (if suffix ''```'' content2 then take (length content2 - 3) content2
                      else content2)
      in strip content3)"

text \<open>
  \<^verbatim>\<open>PRContext(**analysis_data)\<close>: the argument must be a dict, and each of the eight
  required fields must be there with its declared type (a string, or a list of strings);
  other keys are ignored.
\<close>

definition str_field :: "(string \<times> json) list \<Rightarrow> string \<Rightarrow> string option" where
  "str_field kwargs k = (case map_of kwargs k of Some (JString s) \<Rightarrow> Some s | _ \<Rightarrow> None)"

fun str_items :: "json list \<Rightarrow> string list option" where
  "str_items [] = Some []"
| "str_items (JString s # xs) = (case str_items xs of Some ys \<Rightarrow> Some (s # ys) | None \<Rightarrow> None)"
| "str_items (_ # xs) = None"

definition list_field :: "(string \<times> json) list \<Rightarrow> string \<Rightarrow> string list option" where
  "list_field kwargs k = (case map_of kwargs k of Some (JArray xs) \<Rightarrow> str_items xs | _ \<Rightarrow> None)"

definition PRContext_fields :: "(string \<times> bool) list" where
  "PRContext_fields =
     [(''summary'', False), (''purpose'', False), (''testing_focus'', True),
      (''potential_risks'', True), (''affected_areas'', True), (''review_priority'', False),
      (''estimated_review_time'', False), (''key_changes'', True)]"

definition field_valid :: "(string \<times> json) list \<Rightarrow> string \<times> bool \<Rightarrow> bool" where
  "field_valid kwargs f =
     (if snd f then list_field kwargs (fst f) \<noteq> None else str_field kwargs (fst f) \<noteq> None)"

definition PRContext_init :: "json \<Rightarrow> exn + PRContext" where
  "PRContext_init analysis_data =
     (case analysis_data of
        JObject kwargs \<Rightarrow>
          (let bad = map fst (filter (\<lambda>f. \<not> field_valid kwargs f) PRContext_fields)
           in if bad \<noteq> [] then Inl (ValidationError bad)
              else Inr \<lparr> summary = the (str_field kwargs ''summary''),
                         purpose = the (str_field kwargs ''purpose''),
                         testing_focus = the (list_field kwargs ''testing_focus''),
                         potential_risks = the (list_field kwargs ''potential_risks''),
                         affected_areas = the (list_field kwargs ''affected_areas''),
                         review_priority = the (str_field kwargs ''review_priority''),
                         estimated_review_time = the (str_field kwargs ''estimated_review_time''),
                         key_changes = the (list_field kwargs ''key_changes'') \<rparr>)
      | _ \<Rightarrow> Inl TypeError)"

section \<open>The invoker (GroqService.analyze_pr)\<close>

text \<open>
  The part of \<^verbatim>\<open>_build_analysis_prompt\<close> that depends on the request: the numbered file
  and commit lines. The fixed text around them is not modelled, because the completion
  service is opaque. Slicing \<^verbatim>\<open>pr_data.commits\<close> raises \<^verbatim>\<open>TypeError\<close> when it is
  \<^verbatim>\<open>None\<close>.
\<close>

definition file_line :: "nat \<times> PRFile \<Rightarrow> string" where
  "file_line p =
     ''  '' @ str_nat (fst p) @ ''. '' @ filename (snd p) @ '' ('' @ status (snd p) @ ''): +''
       @ str_int (additions (snd p)) @ ''/-'' @ str_int (deletions (snd p))"

definition commit_line :: "nat \<times> PRCommit \<Rightarrow> string" where
  "commit_line p = ''  '' @ str_nat (fst p) @ ''. '' @ take 150 (message (snd p))"

definition build_analysis_prompt :: "PRAnalyzeRequest \<Rightarrow> exn + string list \<times> string list" where
  "build_analysis_prompt pr_data =
     (let fs = take 30 (files pr_data);
          files_summary = map file_line (zip [1 ..< Suc (length fs)] fs)
            @ (if length (files pr_data) > 30
               then [''  ... and '' @ str_nat (length (files pr_data) - 30) @ '' more files'']
               else [])
      in case commits pr_data of
           None \<Rightarrow> Inl TypeError
         | Some all_commits \<Rightarrow>
             (let cs = take 15 all_commits;
                  commits_summary = map commit_line (zip [1 ..< Suc (length cs)] cs)
                    @ (if length all_commits > 15
                       then [''  ... and '' @ str_nat (length all_commits - 15) @ '' more commits'']
                       else [])
              in Inr (files_summary, commits_summary)))"

text \<open>
  What one call of the completion service does: it raises a \<^verbatim>\<open>GroqError\<close> with a
  message, or reading the reply raises another exception, or the text of the reply is
  there.
\<close>

datatype call_outcome =
    RaisesGroqError string
  | RaisesException string
  | Returns string

text \<open>\<^verbatim>\<open>str.lower()\<close> on the code points 0 to 255.\<close>

definition lower_char :: "char \<Rightarrow> char" where
  "lower_char c =
     (let n = (of_char c :: nat)
      in if (65 \<le> n \<and> n \<le> 90) \<or> (192 \<le> n \<and> n \<le> 222 \<and> n \<noteq> 215) then char_of (n + 32) else c)"

definition is_rate_limit :: "string \<Rightarrow> bool" where
  "is_rate_limit msg =
     (let error_str = map lower_char msg
      in sublist ''rate limit'' error_str \<or> sublist ''quota'' error_str)"

record invoker_state =
  calls :: nat
  sleeps :: "int list"

datatype step = Return PRContext | Raise error | Continue exn

definition rate_limit_wait :: "nat \<Rightarrow> int" where
  "rate_limit_wait attempt = min (2 ^ (attempt + 2)) 30"

definition generic_wait :: "nat \<Rightarrow> int" where
  "generic_wait attempt = min (2 ^ attempt) 10"

text \<open>The handler \<^verbatim>\<open>except GroqError as e\<close>.\<close>

definition handle_groq_error :: "string \<Rightarrow> int \<Rightarrow> nat \<Rightarrow> invoker_state \<Rightarrow> step \<times> invoker_state" where
  "handle_groq_error msg max_retries attempt st =
     (if is_rate_limit msg then
        (if int attempt < max_retries - 1
         then (Continue (GroqError msg), st\<lparr>sleeps := sleeps st @ [rate_limit_wait attempt]\<rparr>)
         else (Raise RateLimitExceeded, st))
      else if int attempt < max_retries - 1
        then (Continue (GroqError msg), st\<lparr>sleeps := sleeps st @ [generic_wait attempt]\<rparr>)
        else (Raise (AIAnalysisFailedAfter max_retries (GroqError msg)), st))"

text \<open>The handler \<^verbatim>\<open>except Exception as e\<close>.\<close>

definition handle_exception :: "exn \<Rightarrow> int \<Rightarrow> nat \<Rightarrow> invoker_state \<Rightarrow> step \<times> invoker_state" where
  "handle_exception e max_retries attempt st =
     (if int attempt < max_retries - 1
      then (Continue e, st\<lparr>sleeps := sleeps st @ [generic_wait attempt]\<rparr>)
      else (Raise (AnalysisFailedAfter max_retries e), st))"

text \<open>
  One iteration of the loop. \<open>json_loads\<close> is the library's \<^verbatim>\<open>json.loads\<close>
  (\<^const>\<open>None\<close> when it raises \<^verbatim>\<open>JSONDecodeError\<close>); \<open>provider\<close> gives the outcome of
  each call of the completion service, by the number of calls made before it.
\<close>

definition attempt_body ::
  "(string \<Rightarrow> json option) \<Rightarrow> (nat \<Rightarrow> call_outcome) \<Rightarrow> PRAnalyzeRequest \<Rightarrow> int \<Rightarrow> nat
    \<Rightarrow> invoker_state \<Rightarrow> step \<times> invoker_state" where
  "attempt_body json_loads provider pr_data max_retries attempt st =
     (case build_analysis_prompt pr_data of
        Inl e \<Rightarrow> handle_exception e max_retries attempt st
      | Inr prompt \<Rightarrow>
          (let st1 = st\<lparr>calls := calls st + 1\<rparr>
           in case provider (calls st) of
                RaisesGroqError msg \<Rightarrow> handle_groq_error msg max_retries attempt st1
              | RaisesException msg \<Rightarrow> handle_exception (OtherException msg) max_retries attempt st1
              | Returns text \<Rightarrow>
                  (let content = strip_fences (strip text)
                   in case json_loads content of
                        None \<Rightarrow>
                          if int attempt = max_retries - 1
                          then (Return (create_fallback_context pr_data content), st1)
                          else (Continue JSONDecodeError, st1)
                      | Some analysis_data \<Rightarrow>
                          (case PRContext_init analysis_data of
                             Inr context \<Rightarrow> (Return context, st1)
                           | Inl e \<Rightarrow> handle_exception e max_retries attempt st1))))"

text \<open>
  \<^verbatim>\<open>for attempt in range(max_retries)\<close>, with \<^verbatim>\<open>last_error\<close>; the line after the loop
  raises \<^verbatim>\<open>ValueError(f"Analysis failed: {str(last_error)}")\<close>.
\<close>

fun analyze_loop ::
  "(string \<Rightarrow> json option) \<Rightarrow> (nat \<Rightarrow> call_outcome) \<Rightarrow> PRAnalyzeRequest \<Rightarrow> int \<Rightarrow> nat list
    \<Rightarrow> exn option \<Rightarrow> invoker_state \<Rightarrow> (error + PRContext) \<times> invoker_state" where
  "analyze_loop json_loads provider pr_data max_retries [] last_error st =
     (Inl (AnalysisFailed last_error), st)"
| "analyze_loop json_loads provider pr_data max_retries (attempt # rest) last_error st =
     (case attempt_body json_loads provider pr_data max_retries attempt st of
        (Return context, st') \<Rightarrow> (Inr context, st')
      | (Raise err, st') \<Rightarrow> (Inl err, st')
      | (Continue e, st') \<Rightarrow> analyze_loop json_loads provider pr_data max_retries rest (Some e) st')"

definition analyze_pr ::
  "(string \<Rightarrow> json option) \<Rightarrow> (nat \<Rightarrow> call_outcome) \<Rightarrow> PRAnalyzeRequest \<Rightarrow> int
    \<Rightarrow> (error + PRContext) \<times> invoker_state" where
  "analyze_pr json_loads provider pr_data max_retries =
     analyze_loop json_loads provider pr_data max_retries [0 ..< nat max_retries] None
       \<lparr> calls = 0, sleeps = [] \<rparr>"

text \<open>
  The failures that reach the exponential backoff of the two handlers: a \<^verbatim>\<open>GroqError\<close>
  whose text has no rate-limit signal, or any other exception; and the exception that the
  handler binds to \<^verbatim>\<open>e\<close>.
\<close>

definition generic_failure :: "call_outcome \<Rightarrow> bool" where
  "generic_failure out =
     (case out of
        RaisesGroqError msg \<Rightarrow> \<not> is_rate_limit msg
      | RaisesException msg \<Rightarrow> True
      | Returns text \<Rightarrow> False)"

definition raised :: "call_outcome \<Rightarrow> exn option" where
  "raised out =
     (case out of
        RaisesGroqError msg \<Rightarrow> Some (GroqError msg)
      | RaisesException msg \<Rightarrow> Some (OtherException msg)
      | Returns text \<Rightarrow> None)"

text \<open>The \<^verbatim>\<open>ValueError\<close> of the last attempt after a generic failure with cause \<open>e\<close>.\<close>

definition exhausted :: "int \<Rightarrow> exn \<Rightarrow> error" where
  "exhausted max_retries e =
     (case e of
        GroqError msg \<Rightarrow> AIAnalysisFailedAfter max_retries e
      | _ \<Rightarrow> AnalysisFailedAfter max_retries e)"

section \<open>Request validation (PRAnalyzeRequest)\<close>

text \<open>A field of the request body: left out, \<^verbatim>\<open>null\<close>, or given.\<close>

datatype 'a field_input = Missing | Null | Given 'a

record request_body =
  in_title :: "string field_input"
  in_description :: "string field_input"
  in_files :: "PRFile list field_input"
  in_commits :: "PRCommit list field_input"
  in_base_branch :: "string field_input"
  in_head_branch :: "string field_input"
  in_pr_url :: "string field_input"

datatype validation_kind =
    missing
  | string_type
  | list_type
  | string_too_short
  | string_too_long
  | too_short
  | value_error string

type_synonym field_error = "string \<times> validation_kind"

text \<open>\<^verbatim>\<open>title: str = Field(..., min_length=1, max_length=500)\<close>\<close>

definition title_field :: "string field_input \<Rightarrow> field_error + string" where
  "title_field v =
     (case v of
        Missing \<Rightarrow> Inl (''title'', missing)
      | Null \<Rightarrow> Inl (''title'', string_type)
      | Given s \<Rightarrow>
          if length s < 1 then Inl (''title'', string_too_short)
          else if length s > 500 then Inl (''title'', string_too_long)
          else Inr s)"

text \<open>The validator \<^verbatim>\<open>validate_files\<close>.\<close>

definition validate_files :: "PRFile list \<Rightarrow> field_error + PRFile list" where
  "validate_files v =
     (if length v > 100
      then Inl (''files'', value_error ''Too many files. Maximum 100 files allowed.'')
      else Inr v)"

text \<open>
  \<^verbatim>\<open>files: List[PRFile] = Field(..., min_items=1)\<close>: the constraint of the field is
  checked first, the validator runs on a value that satisfies it.
\<close>

definition files_field :: "PRFile list field_input \<Rightarrow> field_error + PRFile list" where
  "files_field v =
     (case v of
        Missing \<Rightarrow> Inl (''files'', missing)
      | Null \<Rightarrow> Inl (''files'', list_type)
      | Given fs \<Rightarrow> if length fs < 1 then Inl (''files'', too_short) else validate_files fs)"

text \<open>The validator \<^verbatim>\<open>validate_description\<close>; \<^verbatim>\<open>v\<close> is a string or \<^verbatim>\<open>None\<close>.\<close>

definition validate_description :: "string option \<Rightarrow> string" where
  "validate_description v =
     (case v of
        None \<Rightarrow> []
      | Some s \<Rightarrow> if s \<noteq> [] \<and> length s > 10000 then take 10000 s @ ''... (truncated)'' else s)"

text \<open>
  \<^verbatim>\<open>description: Optional[str] = Field(default="")\<close>: the default is taken as it is, a
  value that is given goes through the validator.
\<close>

definition description_field :: "string field_input \<Rightarrow> string" where
  "description_field v =
     (case v of
        Missing \<Rightarrow> []
      | Null \<Rightarrow> validate_description None
      | Given s \<Rightarrow> validate_description (Some s))"

definition optional_field :: "'a option \<Rightarrow> 'a field_input \<Rightarrow> 'a option" where
  "optional_field dflt v = (case v of Missing \<Rightarrow> dflt | Null \<Rightarrow> None | Given x \<Rightarrow> Some x)"

definition lefts :: "('e + 'a) \<Rightarrow> 'e list" where
  "lefts r = (case r of Inl e \<Rightarrow> [e] | Inr _ \<Rightarrow> [])"

definition PRAnalyzeRequest_init :: "request_body \<Rightarrow> field_error list + PRAnalyzeRequest" where
  "PRAnalyzeRequest_init body =
     (case (title_field (in_title body), files_field (in_files body)) of
        (Inr t, Inr fs) \<Rightarrow>
          Inr \<lparr> title = t,
                description = description_field (in_description body),
                files = fs,
                commits = optional_field (Some []) (in_commits body),
                base_branch = optional_field (Some ''main'') (in_base_branch body),
                head_branch = optional_field (Some []) (in_head_branch body),
                pr_url = optional_field (Some []) (in_pr_url body) \<rparr>
      | (rt, rfs) \<Rightarrow> Inl (lefts rt @ lefts rfs))"

section \<open>The endpoint /analyze (app/routers/analyze.py)\<close>

datatype response =
    Success PRContext bool
  | RequestValidationError "field_error list"
  | HTTPException nat

record clock =
  at_get :: double
  at_store :: double
  at_sweep :: double

text \<open>
  The body of the handler, on a request that was constructed. \<open>groq_configured\<close> says
  whether \<^verbatim>\<open>get_groq_service()\<close> finds an API key.
\<close>

definition analyze_pr_handler ::
  "(byte list \<Rightarrow> byte list) \<Rightarrow> (string \<Rightarrow> json option) \<Rightarrow> (nat \<Rightarrow> call_outcome) \<Rightarrow> bool \<Rightarrow> clock
    \<Rightarrow> CacheService \<Rightarrow> PRAnalyzeRequest \<Rightarrow> response \<times> CacheService \<times> invoker_state" where
  "analyze_pr_handler sha256 json_loads provider groq_configured clk cache_service pr_data =
     (let idle = \<lparr> calls = 0, sleeps = [] \<rparr>
      in case commits pr_data of
           None \<Rightarrow> (HTTPException 500, cache_service, idle)
         | Some _ \<Rightarrow>
             (case cache_get sha256 cache_service (at_get clk) pr_data of
                (Some cached_context, cache1) \<Rightarrow> (Success cached_context True, cache1, idle)
              | (None, cache1) \<Rightarrow>
                  if files pr_data = [] then (HTTPException 400, cache1, idle)
                  else if \<not> groq_configured then (HTTPException 503, cache1, idle)
                  else (case analyze_pr json_loads provider pr_data 3 of
                          (Inr context, st) \<Rightarrow>
                            (Success context False,
                             cache_set sha256 cache1 (at_store clk) (at_sweep clk) pr_data context, st)
                        | (Inl err, st) \<Rightarrow> (HTTPException 422, cache1, st))))"

text \<open>
  The framework constructs the \<^verbatim>\<open>PRAnalyzeRequest\<close> parameter from the body before it
  calls the handler, and answers with the validation errors when that fails.
\<close>

definition analyze_endpoint ::
  "(byte list \<Rightarrow> byte list) \<Rightarrow> (string \<Rightarrow> json option) \<Rightarrow> (nat \<Rightarrow> call_outcome) \<Rightarrow> bool \<Rightarrow> clock
    \<Rightarrow> CacheService \<Rightarrow> request_body \<Rightarrow> response \<times> CacheService \<times> invoker_state" where
  "analyze_endpoint sha256 json_loads provider groq_configured clk cache_service body =
     (case PRAnalyzeRequest_init body of
        Inl errs \<Rightarrow> (RequestValidationError errs, cache_service, \<lparr> calls = 0, sleeps = [] \<rparr>)
      | Inr pr_data \<Rightarrow>
          analyze_pr_handler sha256 json_loads provider groq_configured clk cache_service pr_data)"

section \<open>Example data\<close>

definition file_a :: PRFile where
  "file_a = \<lparr> filename = ''src/a.ts'', status = ''modified'', additions = 10, deletions = 2,
              changes = 12, patch = None \<rparr>"

definition file_b :: PRFile where
  "file_b = \<lparr> filename = ''b.ts'', status = ''added'', additions = 5, deletions = 1,
              changes = 6, patch = Some ''@@ -1 +1 @@'' \<rparr>"

definition example_context :: PRContext where
  "example_context = \<lparr> summary = ''Adds a null check'', purpose = ''Fixes a crash'',
      testing_focus = [''Open a session without an id''], potential_risks = [],
      affected_areas = [''src''], review_priority = ''low'',
      estimated_review_time = ''10 minutes'', key_changes = [''src/a.ts: guards the id''] \<rparr>"

definition example_request :: PRAnalyzeRequest where
  "example_request = \<lparr> title = ''Fix null check'', description = ''Guards the session id'',
      files = [file_a, file_b], commits = Some [], base_branch = Some ''main'',
      head_branch = Some '''', pr_url = Some '''' \<rparr>"

text \<open>
  A second request with the same title, file count, totals and first file paths, and other
  statuses, patches, per-file counts, description, commits and branches.
\<close>

definition example_request_b :: PRAnalyzeRequest where
  "example_request_b = \<lparr> title = ''Fix null check'', description = ''Another body'',
      files = [file_a\<lparr>status := ''renamed'', additions := 12, deletions := 0\<rparr>,
               file_b\<lparr>additions := 3, deletions := 3, patch := None\<rparr>],
      commits = Some [\<lparr>sha = ''abc123'', message = ''wip'', author = ''dev''\<rparr>],
      base_branch = Some ''develop'', head_branch = None, pr_url = None \<rparr>"

definition example_body :: request_body where
  "example_body = \<lparr> in_title = Given ''Fix null check'', in_description = Missing,
      in_files = Given [file_a, file_b], in_commits = Missing, in_base_branch = Missing,
      in_head_branch = Given ''fix/null'', in_pr_url = Null \<rparr>"

text \<open>The double of a whole number of seconds, and the largest double below 1.\<close>

definition seconds :: "int \<Rightarrow> double" where
  "seconds n = \<lparr> mant = n, expo = 0 \<rparr>"


definition old_entry :: cache_entry where
  "old_entry = \<lparr> data = example_context, timestamp = seconds 0, pr_title = ''Old title'' \<rparr>"



text \<open>A request with two files and the given additions and deletions.\<close>

definition two_files :: "int \<Rightarrow> int \<Rightarrow> int \<Rightarrow> int \<Rightarrow> PRAnalyzeRequest" where
  "two_files a1 d1 a2 d2 =
     example_request\<lparr>files := [file_a\<lparr>additions := a1, deletions := d1\<rparr>,
                               file_b\<lparr>additions := a2, deletions := d2\<rparr>]\<rparr>"

section \<open>Lemmas about the invoker\<close>

lemma wait_gap: "generic_wait a < rate_limit_wait a"
proof -
  have "(1::int) \<le> 2 ^ a" by simp
  moreover have "\<And>x::int. 1 \<le> x \<Longrightarrow> min x 10 < min (x * 2 ^ 2) 30" by (simp add: min_def)
  ultimately show ?thesis
    unfolding generic_wait_def rate_limit_wait_def power_add by blast
qed

lemma wait_caps: "rate_limit_wait a \<le> 30" "generic_wait a \<le> 10" "0 < generic_wait a"
  by (simp_all add: rate_limit_wait_def generic_wait_def)

lemma prompt_built: "commits pr_data \<noteq> None \<Longrightarrow> \<exists>p. build_analysis_prompt pr_data = Inr p"
  by (auto simp: build_analysis_prompt_def Let_def)

text \<open>An attempt whose call fails generically sleeps and goes on, or raises on the last index.\<close>

lemma attempt_generic:
  assumes "commits pr_data \<noteq> None" "generic_failure (provider (calls st))"
  shows "attempt_body json_loads provider pr_data max_retries attempt st =
           (if int attempt < max_retries - 1
            then (Continue (the (raised (provider (calls st)))),
                  st\<lparr>calls := calls st + 1, sleeps := sleeps st @ [generic_wait attempt]\<rparr>)
            else (Raise (exhausted max_retries (the (raised (provider (calls st))))),
                  st\<lparr>calls := calls st + 1\<rparr>))"
proof -
  from assms(1) obtain p where p: "build_analysis_prompt pr_data = Inr p"
    using prompt_built by blast
  show ?thesis using assms(2)
    by (cases "provider (calls st)")
       (simp_all add: attempt_body_def p generic_failure_def raised_def exhausted_def
          handle_groq_error_def handle_exception_def)
qed

text \<open>
  The last attempt on a reply that arrived: the fallback when \<^verbatim>\<open>json.loads\<close> raises, the
  parsed context when the construction succeeds, and the handler of unexpected
  exceptions when \<^verbatim>\<open>PRContext(**analysis_data)\<close> raises.
\<close>

lemma last_attempt_reply:
  assumes "commits pr_data \<noteq> None" "provider (calls st) = Returns text"
    and "int attempt = max_retries - 1"
  shows "attempt_body json_loads provider pr_data max_retries attempt st =
           (case json_loads (strip_fences (strip text)) of
              None \<Rightarrow> (Return (create_fallback_context pr_data (strip_fences (strip text))),
                        st\<lparr>calls := calls st + 1\<rparr>)
            | Some d \<Rightarrow>
                (case PRContext_init d of
                   Inr context \<Rightarrow> (Return context, st\<lparr>calls := calls st + 1\<rparr>)
                 | Inl e \<Rightarrow> (Raise (AnalysisFailedAfter max_retries e), st\<lparr>calls := calls st + 1\<rparr>)))"
proof -
  from assms(1) obtain p where p: "build_analysis_prompt pr_data = Inr p"
    using prompt_built by blast
  show ?thesis using assms(2,3)
    by (simp add: attempt_body_def p handle_exception_def split: option.splits sum.splits)
qed

text \<open>
  The loop from attempt \<open>a\<close> on, when every remaining call fails generically: it runs to the
  last index, sleeping after each attempt but the last, and raises there.
\<close>

lemma loop_generic:
  assumes built: "commits pr_data \<noteq> None"
    and n: "int n = max_retries"
  shows "a < n \<Longrightarrow> \<forall>k. a \<le> k \<and> k < n \<longrightarrow> generic_failure (provider k) \<Longrightarrow>
         analyze_loop json_loads provider pr_data max_retries [a ..< n] le
           \<lparr>calls = a, sleeps = sl\<rparr>
         = (Inl (exhausted max_retries (the (raised (provider (n - 1))))),
            \<lparr>calls = n, sleeps = sl @ map generic_wait [a ..< n - 1]\<rparr>)"
proof (induction "n - a" arbitrary: a le sl)
  case 0
  then show ?case by simp
next
  case (Suc d)
  from Suc.prems have upt: "[a ..< n] = a # [Suc a ..< n]"
    by (simp add: upt_conv_Cons)
  from Suc.prems have gen: "generic_failure (provider (calls \<lparr>calls = a, sleeps = sl\<rparr>))"
    by simp
  note step = attempt_generic [of pr_data provider "\<lparr>calls = a, sleeps = sl\<rparr>" json_loads max_retries a,
      OF built gen]
  show ?case
  proof (cases "Suc a < n")
    case True
    then have retry: "int a < max_retries - 1" using n by linarith
    from True Suc.hyps have d: "d = n - Suc a" by simp
    from True have upt2: "[a ..< n - Suc 0] = a # [Suc a ..< n - Suc 0]"
      by (simp add: upt_conv_Cons)
    have "analyze_loop json_loads provider pr_data max_retries [Suc a ..< n]
            (Some (the (raised (provider a)))) \<lparr>calls = Suc a, sleeps = sl @ [generic_wait a]\<rparr>
          = (Inl (exhausted max_retries (the (raised (provider (n - 1))))),
             \<lparr>calls = n, sleeps = (sl @ [generic_wait a]) @ map generic_wait [Suc a ..< n - 1]\<rparr>)"
      using Suc.hyps(1) [OF d True] Suc.prems(2) by simp
    then show ?thesis using step retry by (simp add: upt upt2)
  next
    case False
    with Suc.prems have fin: "n = Suc a" by simp
    then have "\<not> int a < max_retries - 1" using n by linarith
    then show ?thesis using step fin by (simp add: upt)
  qed
qed

section \<open>The claims about the invoker\<close>

text \<open>
  C1. The claim: when the call succeeds and the reply cannot be parsed into a
  \<^verbatim>\<open>PRContext\<close> (malformed syntax or missing required fields), the last attempt returns
  the fallback and never raises. The code does so only for malformed syntax
  (\<^verbatim>\<open>json.JSONDecodeError\<close>). Here the completion service answers \<^verbatim>\<open>{}\<close> on every
  call: the text is JSON, all eight required fields are missing, the construction raises,
  the handler of unexpected exceptions retries twice (sleeping 1 and 2 seconds), and the
  third attempt raises \<^verbatim>\<open>ValueError("Analysis failed after 3 attempts: ...")\<close>.
\<close>

theorem missing_fields_reply_raises:
  "analyze_pr (\<lambda>s. if s = ''{}'' then Some (JObject []) else None) (\<lambda>_. Returns ''{}'')
     example_request 3
   = (Inl (AnalysisFailedAfter 3 (ValidationError
        [''summary'', ''purpose'', ''testing_focus'', ''potential_risks'', ''affected_areas'',
         ''review_priority'', ''estimated_review_time'', ''key_changes''])),
      \<lparr>calls = 3, sleeps = [1, 2]\<rparr>)"
  by code_simp

text \<open>
  C2. When every call of the completion service fails generically (a \<^verbatim>\<open>GroqError\<close>
  without a rate-limit signal, or another exception), and \<open>max_retries\<close> is positive,
  \<^verbatim>\<open>analyze_pr\<close> makes exactly \<open>max_retries\<close> calls and raises the error of exhausted
  retries, which carries the exception of the last call; it returns no result. Between
  the attempts it sleeps \<open>min (2 ^ attempt) 10\<close> seconds.
\<close>

theorem generic_failures_exhaust_retries:
  assumes "0 < max_retries"
    and "commits pr_data \<noteq> None"
    and "\<forall>k < nat max_retries. generic_failure (provider k)"
  shows "analyze_pr json_loads provider pr_data max_retries
         = (Inl (exhausted max_retries (the (raised (provider (nat max_retries - 1))))),
            \<lparr>calls = nat max_retries, sleeps = map generic_wait [0 ..< nat max_retries - 1]\<rparr>)"
  using assms loop_generic [of pr_data "nat max_retries" max_retries 0 provider json_loads None "[]"]
  by (simp add: analyze_pr_def)

theorem generic_failures_exhaust_retries_witness:
  "(0::int) < 3 \<and> commits example_request \<noteq> None
   \<and> generic_failure (RaisesGroqError ''Connection error.'')
   \<and> generic_failure (RaisesException ''timed out'')
   \<and> analyze_pr (\<lambda>_. None)
        (\<lambda>k. if k = 2 then RaisesException ''timed out'' else RaisesGroqError ''Connection error.'')
        example_request 3
      = (Inl (AnalysisFailedAfter 3 (OtherException ''timed out'')), \<lparr>calls = 3, sleeps = [1, 2]\<rparr>)"
proof -
  have h1: "(0::int) < 3" by simp
  have h2: "commits example_request \<noteq> None" by (simp add: example_request_def)
  have g1: "generic_failure (RaisesException ''timed out'')" by code_simp
  have g2: "generic_failure (RaisesGroqError ''Connection error.'')" by code_simp
  have h3: "\<forall>k < nat 3. generic_failure ((\<lambda>k. if k = 2 then RaisesException ''timed out''
                                              else RaisesGroqError ''Connection error.'') k)"
    using g1 g2 by simp
  have e: "map generic_wait [0 ..< 2] = [1, 2]" by code_simp
  show ?thesis
    using h1 h2 g1 g2 generic_failures_exhaust_retries [OF h1 h2 h3, of "\<lambda>_. None"]
    by (simp add: e raised_def exhausted_def)
qed

text \<open>
  C5. At an attempt index after which a retry follows (\<open>attempt < max_retries - 1\<close>), a
  \<^verbatim>\<open>GroqError\<close> with a rate-limit signal makes the invoker sleep
  \<open>min (2 ^ (attempt + 2)) 30\<close> seconds, a generic failure at the same index
  \<open>min (2 ^ attempt) 10\<close> seconds; the first delay is strictly longer, and the delays
  are at most 30 and 10 seconds.
\<close>

theorem rate_limit_backoff_longer:
  assumes retry: "int attempt < max_retries - 1"
    and built: "commits pr_data \<noteq> None"
    and limited: "provider (calls st) = RaisesGroqError m" "is_rate_limit m"
    and generic: "generic_failure (provider' (calls st))"
  shows "attempt_body json_loads provider pr_data max_retries attempt st
             = (Continue (GroqError m),
                st\<lparr>calls := calls st + 1, sleeps := sleeps st @ [min (2 ^ (attempt + 2)) 30]\<rparr>)
         \<and> attempt_body json_loads provider' pr_data max_retries attempt st
             = (Continue (the (raised (provider' (calls st)))),
                st\<lparr>calls := calls st + 1, sleeps := sleeps st @ [min (2 ^ attempt) 10]\<rparr>)
         \<and> (min (2 ^ attempt) 10 :: int) < min (2 ^ (attempt + 2)) 30
         \<and> (min (2 ^ (attempt + 2)) 30 :: int) \<le> 30 \<and> (min (2 ^ attempt) 10 :: int) \<le> 10"
proof -
  from built obtain p where p: "build_analysis_prompt pr_data = Inr p"
    using prompt_built by blast
  have 1: "attempt_body json_loads provider pr_data max_retries attempt st
             = (Continue (GroqError m),
                st\<lparr>calls := calls st + 1, sleeps := sleeps st @ [rate_limit_wait attempt]\<rparr>)"
    using retry limited by (simp add: attempt_body_def p handle_groq_error_def)
  have 2: "attempt_body json_loads provider' pr_data max_retries attempt st
             = (Continue (the (raised (provider' (calls st)))),
                st\<lparr>calls := calls st + 1, sleeps := sleeps st @ [generic_wait attempt]\<rparr>)"
    using retry attempt_generic [of pr_data provider' st, OF built generic] by simp
  from 1 2 wait_gap[of attempt] wait_caps[of attempt] show ?thesis
    unfolding rate_limit_wait_def generic_wait_def by simp
qed

theorem rate_limit_backoff_longer_witness:
  "int 0 < 3 - 1 \<and> commits example_request \<noteq> None
   \<and> is_rate_limit ''Rate limit reached''
   \<and> generic_failure (RaisesGroqError ''Connection error.'')
   \<and> attempt_body (\<lambda>_. None) (\<lambda>_. RaisesGroqError ''Rate limit reached'') example_request 3 0
         \<lparr>calls = 0, sleeps = []\<rparr>
       = (Continue (GroqError ''Rate limit reached''), \<lparr>calls = 1, sleeps = [4]\<rparr>)
   \<and> attempt_body (\<lambda>_. None) (\<lambda>_. RaisesGroqError ''Connection error.'') example_request 3 0
         \<lparr>calls = 0, sleeps = []\<rparr>
       = (Continue (GroqError ''Connection error.''), \<lparr>calls = 1, sleeps = [1]\<rparr>)"
proof -
  have h1: "int 0 < 3 - 1" by simp
  have h2: "commits example_request \<noteq> None" by (simp add: example_request_def)
  have h3: "is_rate_limit ''Rate limit reached''" by code_simp
  have h4: "generic_failure (RaisesGroqError ''Connection error.'')" by code_simp
  show ?thesis
    using h1 h2 h3 h4
      rate_limit_backoff_longer [of 0 3 example_request "\<lambda>_. RaisesGroqError ''Rate limit reached''"
              "\<lparr>calls = 0, sleeps = []\<rparr>" "''Rate limit reached''"
              "\<lambda>_. RaisesGroqError ''Connection error.''" "\<lambda>_. None"]
    by (simp add: raised_def)
qed

section \<open>The claim about the fallback synthesis\<close>

text \<open>
  C6. The fallback is a total function of the request alone (the raw reply does not enter
  the result). Priority and estimated review time follow the bands of the total volume,
  the sum of the additions of all files plus the sum of their deletions: below 50 low and
  5-10 minutes, below 200 medium and 15-25 minutes, below 500 high and 30-45 minutes, from
  500 on critical and 1+ hours. The affected areas are the first path segments of the
  first five files, the key changes their paths with the status in parentheses.
\<close>

theorem fallback_bands:
  "create_fallback_context pr_data raw = create_fallback_context pr_data raw'
   \<and> total_changes pr_data
       = sum_list (map additions (files pr_data)) + sum_list (map deletions (files pr_data))
   \<and> (sum_list (map additions (files pr_data)) + sum_list (map deletions (files pr_data)) < 50
        \<longrightarrow> review_priority (create_fallback_context pr_data raw) = ''low''
          \<and> estimated_review_time (create_fallback_context pr_data raw) = ''5-10 minutes'')
   \<and> (50 \<le> sum_list (map additions (files pr_data)) + sum_list (map deletions (files pr_data))
        \<and> sum_list (map additions (files pr_data)) + sum_list (map deletions (files pr_data)) < 200
        \<longrightarrow> review_priority (create_fallback_context pr_data raw) = ''medium''
          \<and> estimated_review_time (create_fallback_context pr_data raw) = ''15-25 minutes'')
   \<and> (200 \<le> sum_list (map additions (files pr_data)) + sum_list (map deletions (files pr_data))
        \<and> sum_list (map additions (files pr_data)) + sum_list (map deletions (files pr_data)) < 500
        \<longrightarrow> review_priority (create_fallback_context pr_data raw) = ''high''
          \<and> estimated_review_time (create_fallback_context pr_data raw) = ''30-45 minutes'')
   \<and> (500 \<le> sum_list (map additions (files pr_data)) + sum_list (map deletions (files pr_data))
        \<longrightarrow> review_priority (create_fallback_context pr_data raw) = ''critical''
          \<and> estimated_review_time (create_fallback_context pr_data raw) = ''1+ hours'')
   \<and> affected_areas (create_fallback_context pr_data raw)
        = map (\<lambda>f. takeWhile (\<lambda>c. c \<noteq> CHR ''/'') (filename f)) (take 5 (files pr_data))
   \<and> key_changes (create_fallback_context pr_data raw)
        = map (\<lambda>f. filename f @ '' ('' @ status f @ '')'') (take 5 (files pr_data))"
proof -
  have t: "total_changes pr_data
       = sum_list (map additions (files pr_data)) + sum_list (map deletions (files pr_data))"
    by (simp add: total_changes_def sum_list_addf)
  show ?thesis
    unfolding t [symmetric]
    by (simp add: create_fallback_context_def review_band_def first_segment_def Let_def)
qed

theorem fallback_bands_witness:
  "(let r = (\<lambda>a1 d1 a2 d2. create_fallback_context (two_files a1 d1 a2 d2) ''not json'')
    in (review_priority (r 30 10 5 4), estimated_review_time (r 30 10 5 4))
         = (''low'', ''5-10 minutes'')
     \<and> (review_priority (r 30 10 5 5), estimated_review_time (r 30 10 5 5))
         = (''medium'', ''15-25 minutes'')
     \<and> (review_priority (r 100 50 40 9), estimated_review_time (r 100 50 40 9))
         = (''medium'', ''15-25 minutes'')
     \<and> (review_priority (r 100 50 40 10), estimated_review_time (r 100 50 40 10))
         = (''high'', ''30-45 minutes'')
     \<and> (review_priority (r 300 100 50 49), estimated_review_time (r 300 100 50 49))
         = (''high'', ''30-45 minutes'')
     \<and> (review_priority (r 300 100 50 50), estimated_review_time (r 300 100 50 50))
         = (''critical'', ''1+ hours'')
     \<and> total_changes (two_files 30 10 5 5) = 50
     \<and> affected_areas (r 30 10 5 5) = [''src'', ''b.ts'']
     \<and> key_changes (r 30 10 5 5) = [''src/a.ts (modified)'', ''b.ts (added)''])"
  using fallback_bands [of "two_files 30 10 5 4" "''not json''"]
        fallback_bands [of "two_files 30 10 5 5" "''not json''"]
        fallback_bands [of "two_files 100 50 40 9" "''not json''"]
        fallback_bands [of "two_files 100 50 40 10" "''not json''"]
        fallback_bands [of "two_files 300 100 50 49" "''not json''"]
        fallback_bands [of "two_files 300 100 50 50" "''not json''"]
  by (simp add: two_files_def file_a_def file_b_def Let_def)

section \<open>Lemmas about the fingerprint\<close>

lemma sorted_items:
  "sort_key fst [(''title'', a), (''files'', b), (''total_additions'', c), (''total_deletions'', d),
                 (''sample_files'', e)]
   = [(''files'', b), (''sample_files'', e), (''title'', a), (''total_additions'', c),
      (''total_deletions'', d)]"
  by (simp add: sort_key_def)

lemma dumps_eq: "json_dumps (cache_input pr_data) = canonical_json ''files'' (canonical_of pr_data)"
  by (simp add: cache_input_def canonical_json_def canonical_of_def sorted_items comp_def)

lemma hex_char_digit: "n < 16 \<Longrightarrow> hex_char n \<in> set ''0123456789abcdef''"
proof -
  have "list_all (\<lambda>n. hex_char n \<in> set ''0123456789abcdef'') [0 ..< 16]" by code_simp
  moreover assume "n < 16"
  ultimately show ?thesis by (simp add: list_all_iff)
qed

lemma hexdigest_chars: "c \<in> set (hexdigest bs) \<Longrightarrow> c \<in> set ''0123456789abcdef''"
proof -
  assume "c \<in> set (hexdigest bs)"
  then obtain b :: byte where "c = hex_char (unat b div 16) \<or> c = hex_char (unat b mod 16)"
    by (auto simp add: hexdigest_def)
  moreover have "unat b div 16 < 16" "unat b mod 16 < 16"
    using unsigned_less [of b, where ?'a = nat] by auto
  ultimately show ?thesis using hex_char_digit by blast
qed

lemma hexdigest_length: "length (hexdigest bs) = 2 * length bs"
  by (induction bs) (simp_all add: hexdigest_def)

text \<open>The digest of the standard's test message \<^verbatim>\<open>abc\<close>.\<close>

lemma sha256_abc:
  "hexdigest (hashlib_sha256 (encode ''abc''))
   = ''ba7816bf8f01cfea414140de5dae2223b00361a396177a9cb410ff61f20015ad''"
  by code_simp

text \<open>The keys of the example request, with the key of the source and that of the specification.\<close>

lemma example_key_sha256: "generate_cache_key hashlib_sha256 example_request = ''ca9a0d98e6d8a009''"
  by code_simp

lemma example_spec_key_sha256:
  "spec_fingerprint hashlib_sha256 (canonical_of example_request) = ''a3fdabb96f01a4ba''"
  by code_simp

text \<open>Requests that agree on the five values have the same key, for every digest function.\<close>

lemma same_values_same_key:
  assumes "title a = title b" "length (files a) = length (files b)"
    and "sum_list (map additions (files a)) = sum_list (map additions (files b))"
    and "sum_list (map deletions (files a)) = sum_list (map deletions (files b))"
    and "map filename (take 3 (files a)) = map filename (take 3 (files b))"
  shows "generate_cache_key sha256 a = generate_cache_key sha256 b"
  using assms by (simp add: generate_cache_key_def dumps_eq canonical_of_def)

lemma example_b_key:
  "generate_cache_key sha256 example_request_b = generate_cache_key sha256 example_request"
  by (rule same_values_same_key)
     (simp_all add: example_request_def example_request_b_def file_a_def file_b_def)

section \<open>Lemmas about the double-precision subtraction\<close>

lemma powi_nat: "0 \<le> x \<Longrightarrow> (2::real) powi x = 2 ^ nat x"
  by (simp add: power_int_def)

lemma powi_split: "e \<le> x \<Longrightarrow> (2::real) powi x = 2 ^ nat (x - e) * 2 powi e"
proof -
  assume "e \<le> x"
  then have "(2::real) powi (x - e) = 2 ^ nat (x - e)" by (simp add: powi_nat)
  moreover have "(2::real) powi ((x - e) + e) = 2 powi (x - e) * 2 powi e"
    by (rule power_int_add) simp
  ultimately show ?thesis by simp
qed

lemma dval_exact_sub: "dval (exact_sub a b) = dval a - dval b"
proof -
  define e where "e = min (expo a) (expo b)"
  have a: "(2::real) powi expo a = 2 ^ nat (expo a - e) * 2 powi e"
    by (rule powi_split) (simp add: e_def)
  have b: "(2::real) powi expo b = 2 ^ nat (expo b - e) * 2 powi e"
    by (rule powi_split) (simp add: e_def)
  have "dval (exact_sub a b)
        = (real_of_int (mant a) * 2 ^ nat (expo a - e) - real_of_int (mant b) * 2 ^ nat (expo b - e))
          * 2 powi e"
    by (simp add: dval_def exact_sub_def Let_def e_def)
  also have "\<dots> = real_of_int (mant a) * (2 ^ nat (expo a - e) * 2 powi e)
                   - real_of_int (mant b) * (2 ^ nat (expo b - e) * 2 powi e)"
    by (simp add: algebra_simps)
  also have "\<dots> = dval a - dval b"
    unfolding a [symmetric] b [symmetric] by (simp add: dval_def)
  finally show ?thesis .
qed

lemma round53_cases [case_names exact rounded]:
  assumes "bitlen \<bar>mant d\<bar> \<le> 53 \<Longrightarrow> round53 d = d \<Longrightarrow> P"
    and "\<And>k q r q'. 0 < k \<Longrightarrow> \<bar>mant d\<bar> = q * 2 ^ k + r \<Longrightarrow> 0 \<le> r \<Longrightarrow> r < 2 ^ k
          \<Longrightarrow> 2 ^ 52 \<le> q \<Longrightarrow> q \<le> q' \<Longrightarrow> q' \<le> q + 1 \<Longrightarrow> (r = 0 \<longrightarrow> q' = q)
          \<Longrightarrow> round53 d = \<lparr> mant = sgn (mant d) * q', expo = expo d + int k \<rparr> \<Longrightarrow> P"
  shows P
proof (cases "bitlen \<bar>mant d\<bar> \<le> 53")
  case True
  then show ?thesis using assms(1) by (simp add: round53_def Let_def)
next
  case False
  define a where "a = \<bar>mant d\<bar>"
  define k where "k = nat (bitlen a - 53)"
  define q where "q = a div 2 ^ k"
  define r where "r = a mod 2 ^ k"
  define q' where "q' = (if 2 * r > 2 ^ k \<or> (2 * r = 2 ^ k \<and> odd q) then q + 1 else q)"
  from False have big: "53 < bitlen a" by (simp add: a_def)
  then have k: "0 < k" by (simp add: k_def)
  from big have "0 < a" using bitlen_eq_zero_iff [of a] by auto
  then have "2 ^ nat (bitlen a - 1) \<le> a" using bitlen_bounds [of a] by simp
  moreover from big have "nat (bitlen a - 1) = 52 + k" by (simp add: k_def)
  ultimately have lo: "(2::int) ^ (52 + k) \<le> a" by simp
  have "(2::int) ^ (52 + k) div 2 ^ k \<le> a div 2 ^ k"
    using lo by (rule zdiv_mono1) simp
  then have q52: "2 ^ 52 \<le> q" by (simp add: q_def power_add)
  have split: "a = q * 2 ^ k + r"
    unfolding q_def r_def by (rule div_mult_mod_eq [symmetric])
  have r: "0 \<le> r" "r < 2 ^ k" by (simp_all add: r_def)
  have q': "q \<le> q'" "q' \<le> q + 1" "r = 0 \<longrightarrow> q' = q"
    by (auto simp add: q'_def)
  have "round53 d = \<lparr> mant = sgn (mant d) * q', expo = expo d + int k \<rparr>"
    using False by (simp add: round53_def Let_def a_def k_def q_def r_def q'_def)
  from assms(2) [OF k split [unfolded a_def] r q52 q' this] show ?thesis .
qed

lemma round53_le_int:
  assumes le: "dval d \<le> real_of_int n" and n: "\<bar>n\<bar> \<le> 2 ^ 53"
  shows "dval (round53 d) \<le> real_of_int n"
proof (cases d rule: round53_cases)
  case exact
  with le show ?thesis by simp
next
  case (rounded k q r q')
  define g :: real where "g = 2 powi (expo d + int k)"
  have g0: "0 < g" by (simp add: g_def)
  have pe: "(2::real) powi (expo d + int k) = 2 ^ k * 2 powi expo d"
    using powi_split [of "expo d" "expo d + int k"] by simp
  then have gk: "g = 2 ^ k * 2 powi expo d" by (simp add: g_def)
  have res: "dval (round53 d) = real_of_int (sgn (mant d) * q') * g"
    by (simp add: rounded(9) dval_def g_def)
  have val: "dval d * 2 ^ k = real_of_int (mant d) * g"
    by (simp add: dval_def gk)
  from rounded(2,3,5) have apos: "0 < \<bar>mant d\<bar>"
    by (smt (verit) mult_pos_pos zero_less_power)
  have q0: "0 < q" using rounded(5) by (smt (verit) zero_less_power)
  show ?thesis
  proof (cases "expo d + int k \<le> 0")
    case True
    define j where "j = nat (- (expo d + int k))"
    have "expo d + int k = - int j" using True by (simp add: j_def)
    then have "(2::real) powi (expo d + int k) = inverse (2 powi (int j))"
      by (simp only: power_int_minus)
    then have gj: "g * 2 ^ j = 1" by (simp add: g_def)
    define N where "N = n * 2 ^ j"
    have Ng: "real_of_int N * g = real_of_int n"
      using gj by (simp add: N_def mult.assoc mult.commute [of _ g])
    from le have "dval d * 2 ^ k \<le> real_of_int n * 2 ^ k" by simp
    then have "real_of_int (mant d) * g \<le> real_of_int N * g * 2 ^ k"
      by (simp add: val Ng)
    then have "real_of_int (mant d) * g \<le> real_of_int (N * 2 ^ k) * g"
      by (simp add: mult_ac)
    then have "real_of_int (mant d) \<le> real_of_int (N * 2 ^ k)"
      using g0 by (simp only: mult_le_cancel_right_pos)
    then have mN: "mant d \<le> N * 2 ^ k" by linarith
    have "sgn (mant d) * q' \<le> N"
    proof (cases "0 < mant d")
      case True
      then have a: "mant d = q * 2 ^ k + r" using rounded(2) by simp
      have "q' \<le> N"
      proof (cases "r = 0")
        case True
        with a mN rounded(8) have "q' * 2 ^ k \<le> N * 2 ^ k" by simp
        then show ?thesis by simp
      next
        case False
        with rounded(3) a mN have "q * 2 ^ k < N * 2 ^ k" by linarith
        then have "q < N" by simp
        with rounded(7) show ?thesis by linarith
      qed
      with True show ?thesis by simp
    next
      case False
      with apos have neg: "mant d < 0" by linarith
      then have a: "- mant d = q * 2 ^ k + r" using rounded(2) by simp
      with mN rounded(4) have "- N * 2 ^ k < (q + 1) * 2 ^ k"
        by (simp add: algebra_simps)
      then have "- N < q + 1" by (simp only: mult_less_cancel_right_pos zero_less_power zero_less_numeral)
      with rounded(6) have "- q' \<le> N" by linarith
      with neg show ?thesis by simp
    qed
    then have "real_of_int (sgn (mant d) * q') * g \<le> real_of_int N * g"
      using g0 by (simp only: mult_le_cancel_right_pos of_int_le_iff)
    with res Ng show ?thesis by simp
  next
    case False
    then obtain i where i: "expo d + int k = int (Suc i)"
      by (metis not_le zero_less_imp_eq_int Suc_pred' gr0_implies_Suc of_nat_0_less_iff)
    have "(2::real) powi int (Suc i) = 2 * 2 ^ i" by (simp only: power_int_of_nat power_Suc)
    moreover have "(1::real) \<le> 2 ^ i" by simp
    ultimately have g2: "2 \<le> g" unfolding g_def i by linarith
    have q52: "(2::real) ^ 52 \<le> real_of_int q"
      using rounded(5) by (metis of_int_le_iff of_int_numeral of_int_power)
    have qg: "2 ^ 53 \<le> real_of_int q * g"
    proof -
      have "(2::real) ^ 52 * 2 \<le> real_of_int q * g"
        using q52 g2 by (intro mult_mono) simp_all
      then show ?thesis by simp
    qed
    have nr: "\<bar>real_of_int n\<bar> \<le> 2 ^ 53"
      using n by (metis of_int_abs of_int_le_iff of_int_numeral of_int_power)
    show ?thesis
    proof (cases "0 < mant d")
      case True
      then have a: "mant d = q * 2 ^ k + r" using rounded(2) by simp
      have "real_of_int q * g * 2 ^ k \<le> real_of_int (mant d) * g"
      proof -
        have "real_of_int (q * 2 ^ k) \<le> real_of_int (mant d)"
          using a rounded(3) by linarith
        then have "real_of_int (q * 2 ^ k) * g \<le> real_of_int (mant d) * g"
          using g0 by (simp only: mult_le_cancel_right_pos)
        then show ?thesis by (simp add: mult_ac)
      qed
      also have "\<dots> = dval d * 2 ^ k" by (simp add: val)
      also have "\<dots> \<le> real_of_int n * 2 ^ k" using le by simp
      finally have "real_of_int q * g \<le> real_of_int n" by simp
      with qg nr have eq: "real_of_int q * g = real_of_int n" "real_of_int n = 2 ^ 53"
        by linarith+
      have "r = 0"
      proof (rule ccontr)
        assume "r \<noteq> 0"
        with rounded(3) a have "real_of_int (q * 2 ^ k) < real_of_int (mant d)" by linarith
        then have "real_of_int (q * 2 ^ k) * g < real_of_int (mant d) * g"
          using g0 by (simp only: mult_less_cancel_right_pos)
        then have "real_of_int q * g * 2 ^ k < dval d * 2 ^ k" by (simp add: val mult_ac)
        then have "real_of_int q * g < dval d" by simp
        with le eq show False by linarith
      qed
      with rounded(8) have "q' = q" by simp
      with True res eq show ?thesis by simp
    next
      case False
      with apos have neg: "mant d < 0" by linarith
      have "real_of_int q * g \<le> real_of_int q' * g"
        using rounded(6) g0 by (simp only: mult_le_cancel_right_pos of_int_le_iff)
      with qg nr have "- (real_of_int q' * g) \<le> real_of_int n" by linarith
      with neg res show ?thesis by simp
    qed
  qed
qed



lemma float_sub_le_int:
  assumes "dval a - dval b \<le> real_of_int n" "\<bar>n\<bar> \<le> 2 ^ 53"
  shows "dval (float_sub a b) \<le> real_of_int n"
  unfolding float_sub_def using assms by (intro round53_le_int) (simp_all add: dval_exact_sub)


text \<open>The ages of the example data.\<close>

lemma dval_seconds [simp]: "dval (seconds n) = real_of_int n"
  by (simp add: dval_def seconds_def)

lemma float_sub_seconds:
  assumes "\<bar>a - b\<bar> < 2 ^ 53"
  shows "float_sub (seconds a) (seconds b) = seconds (a - b)"
proof -
  have "exact_sub (seconds a) (seconds b) = seconds (a - b)"
    by (simp add: exact_sub_def seconds_def)
  moreover from assms have "bitlen \<bar>a - b\<bar> \<le> 53"
    using bitlen_le_iff_power [of "\<bar>a - b\<bar>" 53] by simp
  then have "round53 (seconds (a - b)) = seconds (a - b)"
    by (simp add: round53_def seconds_def Let_def)
  ultimately show ?thesis by (simp add: float_sub_def)
qed




section \<open>Lemmas about the cache\<close>

lemma fold_delete: "fold AList.delete ks al = filter (\<lambda>p. fst p \<notin> set ks) al"
proof (induction ks arbitrary: al)
  case Nil
  then show ?case by simp
next
  case (Cons k ks)
  have "filter (\<lambda>p. fst p \<notin> set ks) (AList.delete k al) = filter (\<lambda>p. fst p \<notin> set (k # ks)) al"
    by (auto simp add: AList.delete_eq intro: filter_cong)
  with Cons show ?case by simp
qed


lemma cleanup_cache:
  "cache (cleanup_expired self now) = filter (\<lambda>p. fst p \<notin> set (expired_keys self now)) (cache self)"
  by (simp add: cleanup_expired_def fold_delete)

lemma cleanup_ttl [simp]: "ttl (cleanup_expired self now) = ttl self"
  by (simp add: cleanup_expired_def Let_def)

lemma cache_set_ttl [simp]: "ttl (cache_set sha256 self t_store t_sweep pr_data result) = ttl self"
  by (simp add: cache_set_def Let_def)


lemma cleanup_filter:
  assumes "dict_ok self"
  shows "cache (cleanup_expired self now)
         = filter (\<lambda>(k, e). \<not> dval (float_sub now (timestamp e)) > real_of_int (ttl self)) (cache self)"
proof -
  have "fst p \<notin> set (expired_keys self now) \<longleftrightarrow> \<not> dval (float_sub now (timestamp (snd p))) > real_of_int (ttl self)"
    if "p \<in> set (cache self)" for p
  proof
    assume "fst p \<notin> set (expired_keys self now)"
    with that show "\<not> dval (float_sub now (timestamp (snd p))) > real_of_int (ttl self)"
      by (force simp add: expired_keys_def)
  next
    assume fresh: "\<not> dval (float_sub now (timestamp (snd p))) > real_of_int (ttl self)"
    show "fst p \<notin> set (expired_keys self now)"
    proof
      assume "fst p \<in> set (expired_keys self now)"
      then obtain e where e: "(fst p, e) \<in> set (cache self)" "dval (float_sub now (timestamp e)) > real_of_int (ttl self)"
        by (auto simp add: expired_keys_def)
      from that have "(fst p, snd p) \<in> set (cache self)" by simp
      with e(1) assms have "e = snd p"
        unfolding dict_ok_def by (meson eq_key_imp_eq_value)
      with e(2) fresh show False by simp
    qed
  qed
  then show ?thesis
    by (auto simp add: cleanup_cache split_def intro: filter_cong)
qed

lemma dict_ok_cleanup: "dict_ok self \<Longrightarrow> dict_ok (cleanup_expired self now)"
  by (simp add: dict_ok_def cleanup_cache distinct_map_filter)

lemma dict_ok_set: "dict_ok self \<Longrightarrow> dict_ok (cache_set sha256 self t_store t_sweep pr_data result)"
  by (simp add: cache_set_def Let_def dict_ok_cleanup) (simp add: dict_ok_def distinct_update dict_ok_cleanup[unfolded dict_ok_def])

lemma dict_ok_get: "dict_ok self \<Longrightarrow> dict_ok (snd (cache_get sha256 self now pr_data))"
  by (auto simp add: cache_get_def Let_def dict_ok_def distinct_delete split: option.splits)

lemma dict_ok_init: "dict_ok (CacheService_init t)"
  by (simp add: dict_ok_def CacheService_init_def)


lemma cache_set_cleanup:
  "cache_set sha256 self t_store t_sweep pr_data result
   = cleanup_expired (self\<lparr>cache := AList.update (generate_cache_key sha256 pr_data)
        \<lparr> data = result, timestamp = t_store, pr_title = title pr_data \<rparr> (cache self)\<rparr>) t_sweep"
  by (simp add: cache_set_def Let_def)


lemma cache_set_filter:
  assumes "dict_ok self"
  shows "cache (cache_set sha256 self t_store t_sweep pr_data result)
         = filter (\<lambda>(k, e). \<not> dval (float_sub t_sweep (timestamp e)) > real_of_int (ttl self))
             (AList.update (generate_cache_key sha256 pr_data)
                \<lparr> data = result, timestamp = t_store, pr_title = title pr_data \<rparr> (cache self))"
proof -
  let ?self1 = "self\<lparr>cache := AList.update (generate_cache_key sha256 pr_data)
                     \<lparr> data = result, timestamp = t_store, pr_title = title pr_data \<rparr> (cache self)\<rparr>"
  from assms have "dict_ok ?self1" by (simp add: dict_ok_def distinct_update)
  then show ?thesis using cleanup_filter [of ?self1 t_sweep] by (simp add: cache_set_cleanup)
qed

lemma set_lookup:
  assumes "dict_ok self" "dval (float_sub t_sweep t_store) \<le> real_of_int (ttl self)"
  shows "map_of (cache (cache_set sha256 self t_store t_sweep pr_data result))
           (generate_cache_key sha256 pr_data)
         = Some \<lparr> data = result, timestamp = t_store, pr_title = title pr_data \<rparr>"
proof -
  let ?k = "generate_cache_key sha256 pr_data"
  let ?new = "\<lparr> data = result, timestamp = t_store, pr_title = title pr_data \<rparr>"
  let ?al = "AList.update ?k ?new (cache self)"
  from assms(1) have d: "distinct (map fst ?al)" by (simp add: dict_ok_def distinct_update)
  have "map_of ?al ?k = Some ?new" by (simp add: update_conv')
  then have "(?k, ?new) \<in> set ?al" by (rule map_of_SomeD)
  with assms(2) have "(?k, ?new) \<in> set (filter (\<lambda>(k, e). \<not> dval (float_sub t_sweep (timestamp e)) > real_of_int (ttl self)) ?al)"
    by simp
  moreover have "distinct (map fst (filter (\<lambda>(k, e). \<not> dval (float_sub t_sweep (timestamp e)) > real_of_int (ttl self)) ?al))"
    using d by (simp add: distinct_map_filter)
  ultimately have "map_of (filter (\<lambda>(k, e). \<not> dval (float_sub t_sweep (timestamp e)) > real_of_int (ttl self)) ?al) ?k = Some ?new"
    by simp
  with cache_set_filter [OF assms(1)] show ?thesis by simp
qed




section \<open>Lemmas about the request validation\<close>

lemma init_description:
  "PRAnalyzeRequest_init (body\<lparr>in_description := d\<rparr>)
   = map_sum id (\<lambda>r. r\<lparr>description := description_field d\<rparr>) (PRAnalyzeRequest_init body)"
  by (simp add: PRAnalyzeRequest_init_def split: sum.splits)

section \<open>The claim about the fingerprint\<close>

text \<open>
  C3, as it is worded: the fingerprint is the first 16 hexadecimal digits of the SHA-256
  digest of the sorted-key JSON text of the record with the fields \<^verbatim>\<open>title\<close>,
  \<^verbatim>\<open>file_count\<close>, \<^verbatim>\<open>total_additions\<close>, \<^verbatim>\<open>total_deletions\<close> and the first three file
  paths. The source writes the file count under the key \<^verbatim>\<open>files\<close>, so the text it
  hashes is another one: for the example request the key of the source is
  \<^verbatim>\<open>ca9a0d98e6d8a009\<close>, and the fingerprint of the record with \<^verbatim>\<open>file_count\<close> is
  \<^verbatim>\<open>a3fdabb96f01a4ba\<close>.
\<close>

theorem fingerprint_spec_key_counterexample:
  "generate_cache_key hashlib_sha256 example_request
   \<noteq> spec_fingerprint hashlib_sha256 (canonical_of example_request)"
  by (simp add: example_key_sha256 example_spec_key_sha256)

text \<open>
  C3, amended. The cache key is the first 16 hexadecimal digits of the digest of the UTF-8
  bytes of the JSON text of the record with the keys \<^verbatim>\<open>files\<close> (the file count),
  \<^verbatim>\<open>sample_files\<close> (the first three file paths in order), \<^verbatim>\<open>title\<close>,
  \<^verbatim>\<open>total_additions\<close> and \<^verbatim>\<open>total_deletions\<close>, written in this, the lexicographic
  order of the keys: what \<^verbatim>\<open>json.dumps(cache_input, sort_keys=True)\<close> computes is that
  text. So two requests that agree on the five values have the same key, whatever their
  other fields. This holds for every digest function, SHA-256 among them.
\<close>

theorem fingerprint_canonical:
  "generate_cache_key sha256 pr_data = files_fingerprint sha256 (canonical_of pr_data)
   \<and> set (generate_cache_key sha256 pr_data) \<subseteq> set ''0123456789abcdef''
   \<and> length (generate_cache_key sha256 pr_data)
       = min 16 (2 * length (sha256 (encode (canonical_json ''files'' (canonical_of pr_data)))))
   \<and> (title a = title b \<and> length (files a) = length (files b)
        \<and> sum_list (map additions (files a)) = sum_list (map additions (files b))
        \<and> sum_list (map deletions (files a)) = sum_list (map deletions (files b))
        \<and> map filename (take 3 (files a)) = map filename (take 3 (files b))
      \<longrightarrow> generate_cache_key sha256 a = generate_cache_key sha256 b)"
proof -
  have key: "generate_cache_key sha256 p = files_fingerprint sha256 (canonical_of p)" for p
    by (simp add: generate_cache_key_def files_fingerprint_def dumps_eq)
  have "set (files_fingerprint sha256 r) \<subseteq> set ''0123456789abcdef''" for r
    unfolding files_fingerprint_def using hexdigest_chars set_take_subset by fast
  moreover have "length (files_fingerprint sha256 r)
       = min 16 (2 * length (sha256 (encode (canonical_json ''files'' r))))" for r
    by (simp add: files_fingerprint_def hexdigest_length min.commute)
  ultimately show ?thesis by (simp add: key canonical_of_def)
qed

theorem fingerprint_canonical_witness:
  "title example_request = title example_request_b
   \<and> length (files example_request) = length (files example_request_b)
   \<and> sum_list (map additions (files example_request))
       = sum_list (map additions (files example_request_b))
   \<and> sum_list (map deletions (files example_request))
       = sum_list (map deletions (files example_request_b))
   \<and> map filename (take 3 (files example_request))
       = map filename (take 3 (files example_request_b))
   \<and> example_request \<noteq> example_request_b
   \<and> (\<forall>sha256. generate_cache_key sha256 example_request
                 = generate_cache_key sha256 example_request_b)
   \<and> generate_cache_key hashlib_sha256 example_request_b = ''ca9a0d98e6d8a009''"
proof -
  have h: "title example_request = title example_request_b
   \<and> length (files example_request) = length (files example_request_b)
   \<and> sum_list (map additions (files example_request))
       = sum_list (map additions (files example_request_b))
   \<and> sum_list (map deletions (files example_request))
       = sum_list (map deletions (files example_request_b))
   \<and> map filename (take 3 (files example_request))
       = map filename (take 3 (files example_request_b))"
    by (simp add: example_request_def example_request_b_def file_a_def file_b_def)
  have d: "example_request \<noteq> example_request_b"
    by (simp add: example_request_def example_request_b_def)
  from h fingerprint_canonical [where a = example_request and b = example_request_b]
  have e: "\<forall>sha256. generate_cache_key sha256 example_request
                 = generate_cache_key sha256 example_request_b" by blast
  then have "generate_cache_key hashlib_sha256 example_request_b = ''ca9a0d98e6d8a009''"
    using example_key_sha256 by simp
  with h d e show ?thesis by blast
qed

section \<open>The claims about the cache\<close>




text \<open>
  C7. In a store that is a dict, with a TTL of at most \<open>2 ^ 53\<close> in absolute value (an
  integer that is a double), a \<^verbatim>\<open>get\<close> for the same key after \<^verbatim>\<open>set\<close>, at a time when
  the TTL has not elapsed since the store, returns the result that was set and leaves the
  store as it is; the entry of the key holds the new result and the time of the
  \<^verbatim>\<open>set\<close>, whatever was stored under the key before. The times are exact here: an
  exact age of at most the TTL never rounds to a computed age above it.
\<close>

theorem get_after_set:
  assumes ok: "dict_ok self"
    and bound: "\<bar>ttl self\<bar> \<le> 2 ^ 53"
    and clock: "dval t_sweep \<le> dval now"
    and fresh: "dval now - dval t_store \<le> real_of_int (ttl self)"
    and same: "generate_cache_key sha256 pr' = generate_cache_key sha256 pr_data"
  shows "cache_get sha256 (cache_set sha256 self t_store t_sweep pr_data result) now pr'
           = (Some result, cache_set sha256 self t_store t_sweep pr_data result)
       \<and> map_of (cache (cache_set sha256 self t_store t_sweep pr_data result))
           (generate_cache_key sha256 pr_data)
           = Some \<lparr> data = result, timestamp = t_store, pr_title = title pr_data \<rparr>"
proof -
  from clock fresh have "dval t_sweep - dval t_store \<le> real_of_int (ttl self)" by simp
  then have sweep: "dval (float_sub t_sweep t_store) \<le> real_of_int (ttl self)"
    using bound by (rule float_sub_le_int)
  have "dval (float_sub now t_store) \<le> real_of_int (ttl self)"
    using fresh bound by (rule float_sub_le_int)
  with set_lookup [OF ok sweep, of sha256 pr_data result] same
  show ?thesis by (simp add: cache_get_def Let_def)
qed

theorem get_after_set_witness:
  "dict_ok \<lparr>cache = [(''ca9a0d98e6d8a009'', old_entry)], ttl = 3600\<rparr>
   \<and> \<bar>3600 :: int\<bar> \<le> 2 ^ 53
   \<and> dval (seconds 5000) \<le> dval (seconds 5100)
   \<and> dval (seconds 5100) - dval (seconds 5000) \<le> real_of_int 3600
   \<and> cache_get hashlib_sha256
        (cache_set hashlib_sha256 \<lparr>cache = [(''ca9a0d98e6d8a009'', old_entry)], ttl = 3600\<rparr>
           (seconds 5000) (seconds 5000) example_request example_context)
        (seconds 5100) example_request_b
      = (Some example_context,
         \<lparr>cache = [(''ca9a0d98e6d8a009'',
                    \<lparr>data = example_context, timestamp = seconds 5000,
                       pr_title = ''Fix null check''\<rparr>)],
           ttl = 3600\<rparr>)"
proof -
  let ?s = "\<lparr>cache = [(''ca9a0d98e6d8a009'', old_entry)], ttl = 3600\<rparr>"
  have ok: "dict_ok ?s" by (simp add: dict_ok_def)
  have b: "\<bar>ttl ?s\<bar> \<le> 2 ^ 53" by simp
  have c: "dval (seconds 5000) \<le> dval (seconds 5100)" by simp
  have f: "dval (seconds 5100) - dval (seconds 5000) \<le> real_of_int (ttl ?s)" by simp
  have k: "generate_cache_key hashlib_sha256 example_request_b
           = generate_cache_key hashlib_sha256 example_request" by (rule example_b_key)
  have t: "title example_request = ''Fix null check''" by (simp add: example_request_def)
  have a3: "dval (float_sub (seconds 5000) (seconds 5000)) = 0"
    by (simp add: float_sub_seconds)
  have s: "cache_set hashlib_sha256 ?s (seconds 5000) (seconds 5000) example_request example_context
           = \<lparr>cache = [(''ca9a0d98e6d8a009'',
                    \<lparr>data = example_context, timestamp = seconds 5000,
                       pr_title = ''Fix null check''\<rparr>)],
           ttl = 3600\<rparr>"
    by (simp add: cache_set_def cleanup_expired_def expired_keys_def example_key_sha256 t
        old_entry_def a3)
  show ?thesis
    using ok b c f get_after_set [OF ok b c f k, where result = example_context]
    by (simp add: s)
qed




section \<open>The claims about the request validation\<close>

text \<open>
  C9. A request body with no files, or with more than 100 files, is answered with
  validation errors, and neither the cache nor the completion service is touched. A list
  of 1 to 100 files passes the validation of the field, and the request is constructed
  when its title is valid too.
\<close>

theorem file_count_validation:
  "(in_files body = Given fs \<and> (length fs = 0 \<or> length fs > 100) \<longrightarrow>
      (\<exists>errs. errs \<noteq> []
         \<and> analyze_endpoint sha256 json_loads provider groq_configured clk cache_service body
             = (RequestValidationError errs, cache_service, \<lparr>calls = 0, sleeps = []\<rparr>)))
   \<and> (1 \<le> length fs \<and> length fs \<le> 100 \<longrightarrow>
        files_field (Given fs) = Inr fs
      \<and> (in_files body = Given fs \<and> title_field (in_title body) = Inr t \<longrightarrow>
           (\<exists>r. PRAnalyzeRequest_init body = Inr r \<and> files r = fs)))"
  by (auto simp add: analyze_endpoint_def PRAnalyzeRequest_init_def files_field_def
      validate_files_def lefts_def split: sum.splits)

theorem file_count_validation_witness:
  "analyze_endpoint hashlib_sha256 (\<lambda>_. None) (\<lambda>_. Returns ''{}'') True
       \<lparr>at_get = seconds 0, at_store = seconds 0, at_sweep = seconds 0\<rparr> (CacheService_init 3600)
       (example_body\<lparr>in_files := Given []\<rparr>)
     = (RequestValidationError [(''files'', too_short)], CacheService_init 3600,
        \<lparr>calls = 0, sleeps = []\<rparr>)
   \<and> analyze_endpoint hashlib_sha256 (\<lambda>_. None) (\<lambda>_. Returns ''{}'') True
       \<lparr>at_get = seconds 0, at_store = seconds 0, at_sweep = seconds 0\<rparr> (CacheService_init 3600)
       (example_body\<lparr>in_files := Given (replicate 101 file_a)\<rparr>)
     = (RequestValidationError
          [(''files'', value_error ''Too many files. Maximum 100 files allowed.'')],
        CacheService_init 3600, \<lparr>calls = 0, sleeps = []\<rparr>)
   \<and> files_field (Given (replicate 100 file_a)) = Inr (replicate 100 file_a)
   \<and> files_field (Given [file_a]) = Inr [file_a]
   \<and> map_sum id files (PRAnalyzeRequest_init example_body) = Inr [file_a, file_b]"
proof -
  let ?ep = "analyze_endpoint hashlib_sha256 (\<lambda>_. None) (\<lambda>_. Returns ''{}'') True
       \<lparr>at_get = seconds 0, at_store = seconds 0, at_sweep = seconds 0\<rparr> (CacheService_init 3600)"
  have t: "title_field (in_title example_body) = Inr ''Fix null check''"
    by (simp add: example_body_def title_field_def)
  from file_count_validation [where body = "example_body\<lparr>in_files := Given []\<rparr>" and fs = "[]"
        and ?sha256.0 = hashlib_sha256 and json_loads = "\<lambda>_. None" and provider = "\<lambda>_. Returns ''{}''"
        and groq_configured = True and clk = "\<lparr>at_get = seconds 0, at_store = seconds 0, at_sweep = seconds 0\<rparr>"
        and cache_service = "CacheService_init 3600"]
  obtain e0 where e0: "?ep (example_body\<lparr>in_files := Given []\<rparr>)
      = (RequestValidationError e0, CacheService_init 3600, \<lparr>calls = 0, sleeps = []\<rparr>)"
    by auto
  then have "e0 = [(''files'', too_short)]"
    by (simp add: analyze_endpoint_def PRAnalyzeRequest_init_def files_field_def t lefts_def
        example_body_def title_field_def split: sum.splits)
  with e0 have 1: "?ep (example_body\<lparr>in_files := Given []\<rparr>)
      = (RequestValidationError [(''files'', too_short)], CacheService_init 3600,
         \<lparr>calls = 0, sleeps = []\<rparr>)" by simp
  from file_count_validation [where body = "example_body\<lparr>in_files := Given (replicate 101 file_a)\<rparr>"
        and fs = "replicate 101 file_a"
        and ?sha256.0 = hashlib_sha256 and json_loads = "\<lambda>_. None" and provider = "\<lambda>_. Returns ''{}''"
        and groq_configured = True and clk = "\<lparr>at_get = seconds 0, at_store = seconds 0, at_sweep = seconds 0\<rparr>"
        and cache_service = "CacheService_init 3600"]
  obtain e1 where e1: "?ep (example_body\<lparr>in_files := Given (replicate 101 file_a)\<rparr>)
      = (RequestValidationError e1, CacheService_init 3600, \<lparr>calls = 0, sleeps = []\<rparr>)"
    by auto
  then have "e1 = [(''files'', value_error ''Too many files. Maximum 100 files allowed.'')]"
    by (simp add: analyze_endpoint_def PRAnalyzeRequest_init_def files_field_def t lefts_def
        validate_files_def example_body_def title_field_def split: sum.splits)
  with e1 have 2: "?ep (example_body\<lparr>in_files := Given (replicate 101 file_a)\<rparr>)
      = (RequestValidationError
          [(''files'', value_error ''Too many files. Maximum 100 files allowed.'')],
         CacheService_init 3600, \<lparr>calls = 0, sleeps = []\<rparr>)" by simp
  have 3: "files_field (Given (replicate 100 file_a)) = Inr (replicate 100 file_a)"
    using file_count_validation [where fs = "replicate 100 file_a"] by simp
  have 4: "files_field (Given [file_a]) = Inr [file_a]"
    using file_count_validation [where fs = "[file_a]"] by simp
  have 5: "map_sum id files (PRAnalyzeRequest_init example_body) = Inr [file_a, file_b]"
    using file_count_validation [where body = example_body and fs = "[file_a, file_b]" and t = "''Fix null check''"] t
    by (auto simp add: example_body_def)
  from 1 2 3 4 5 show ?thesis by blast
qed

text \<open>
  C10. A description longer than 10000 characters is replaced by its first 10000
  characters followed by \<^verbatim>\<open>... (truncated)\<close>, a shorter one is kept, and a missing, null
  or empty description becomes the empty string. The description never makes the
  construction of the request fail, and the other fields of the constructed request do
  not depend on it.
\<close>

theorem description_truncated:
  "(length s > 10000 \<longrightarrow> validate_description (Some s) = take 10000 s @ ''... (truncated)'')
   \<and> (length s \<le> 10000 \<longrightarrow> validate_description (Some s) = s)
   \<and> validate_description None = []
   \<and> description_field Missing = [] \<and> description_field Null = []
   \<and> description_field (Given []) = []
   \<and> description_field (Given s) = validate_description (Some s)
   \<and> PRAnalyzeRequest_init (body\<lparr>in_description := d\<rparr>)
       = map_sum id (\<lambda>r. r\<lparr>description := description_field d\<rparr>) (PRAnalyzeRequest_init body)"
  using init_description [where body = body and d = d]
  by (auto simp add: validate_description_def description_field_def)

theorem description_truncated_witness:
  "length (replicate 10001 (CHR ''a'')) > 10000
   \<and> validate_description (Some (replicate 10001 (CHR ''a'')))
       = replicate 10000 (CHR ''a'') @ ''... (truncated)''
   \<and> length ''short'' \<le> 10000 \<and> validate_description (Some ''short'') = ''short''
   \<and> PRAnalyzeRequest_init (example_body\<lparr>in_description := Given (replicate 10001 (CHR ''a''))\<rparr>)
       = Inr \<lparr> title = ''Fix null check'',
               description = replicate 10000 (CHR ''a'') @ ''... (truncated)'',
               files = [file_a, file_b], commits = Some [], base_branch = Some ''main'',
               head_branch = Some ''fix/null'', pr_url = None \<rparr>"
proof -
  have i: "PRAnalyzeRequest_init example_body
       = Inr \<lparr> title = ''Fix null check'', description = [],
               files = [file_a, file_b], commits = Some [], base_branch = Some ''main'',
               head_branch = Some ''fix/null'', pr_url = None \<rparr>"
    by (simp add: PRAnalyzeRequest_init_def example_body_def title_field_def files_field_def
        validate_files_def description_field_def optional_field_def)
  show ?thesis
    using description_truncated [where s = "replicate 10001 (CHR ''a'')" and body = example_body
                 and d = "Given (replicate 10001 (CHR ''a''))"]
      description_truncated [where s = "''short''" and body = example_body and d = Missing]
    by (simp add: i)
qed

end
